theory Spec2Isabelle
  imports Complex_Main "HOL-Library.Sublist" "HOL-Library.Word"
begin

section \<open>Go library functions used by main.go\<close>

text \<open>
  Go strings are byte sequences; they are modelled as \<open>string\<close> (a list of 8-bit
  characters). The functions of package \<open>strings\<close> that main.go calls are written
  out here with the behaviour the Go documentation gives them.
\<close>

subsection \<open>Package strings\<close>

text \<open>\<open>strings.HasPrefix(s, prefix)\<close>.\<close>

definition strings_HasPrefix :: "string \<Rightarrow> string \<Rightarrow> bool" where
  "strings_HasPrefix s p = prefix p s"

text \<open>\<open>strings.HasSuffix(s, suffix)\<close>.\<close>

definition strings_HasSuffix :: "string \<Rightarrow> string \<Rightarrow> bool" where
  "strings_HasSuffix s p = suffix p s"

text \<open>\<open>strings.Contains(s, substr)\<close>: \<open>substr\<close> occurs at some position of \<open>s\<close>.\<close>

fun strings_Contains :: "string \<Rightarrow> string \<Rightarrow> bool" where
  "strings_Contains [] sub = (sub = [])"
| "strings_Contains (c # cs) sub = (prefix sub (c # cs) \<or> strings_Contains cs sub)"

text \<open>\<open>strings.TrimSuffix(s, suffix)\<close>: \<open>s\<close> without the trailing \<open>suffix\<close>, or \<open>s\<close>
  itself when it does not end with it.\<close>

definition strings_TrimSuffix :: "string \<Rightarrow> string \<Rightarrow> string" where
  "strings_TrimSuffix s p =
     (if strings_HasSuffix s p then take (length s - length p) s else s)"

text \<open>\<open>strings.Split(s, sep)\<close> for a separator of one byte (main.go splits at \<open>","\<close>):
  the pieces between the separators, in order; a string without separator is the
  single piece, and so is the empty string.\<close>

fun strings_Split :: "string \<Rightarrow> char \<Rightarrow> string list" where
  "strings_Split [] sep = [[]]"
| "strings_Split (c # cs) sep =
     (if c = sep then [] # strings_Split cs sep
      else (case strings_Split cs sep of
              [] \<Rightarrow> [[c]]
            | p # ps \<Rightarrow> (c # p) # ps))"

text \<open>\<open>strings.ReplaceAll(s, old, new)\<close> for \<open>old\<close> of one byte (main.go replaces the
  double quote).\<close>

fun strings_ReplaceAll :: "string \<Rightarrow> char \<Rightarrow> string \<Rightarrow> string" where
  "strings_ReplaceAll [] old new = []"
| "strings_ReplaceAll (c # cs) old new =
     (if c = old then new @ strings_ReplaceAll cs old new
      else c # strings_ReplaceAll cs old new)"

text \<open>
  \<open>strings.TrimSpace(s)\<close> removes leading and trailing white space as Unicode defines it.
  On the bytes of a string these are the six ASCII characters tab, line feed, vertical
  tab, form feed, carriage return and space, and the UTF-8 encodings of U+0085, U+00A0,
  U+1680, U+2000 to U+200A, U+2028, U+2029, U+202F, U+205F and U+3000. A byte that does
  not start one of these encodings is no white space, an invalid byte included.
\<close>

definition asciiSpace :: "char \<Rightarrow> bool" where
  "asciiSpace c = (c \<in> set [CHR 0x09, CHR 0x0A, CHR 0x0B, CHR 0x0C, CHR 0x0D, CHR 0x20])"

definition unicodeSpace :: "string list" where
  "unicodeSpace =
     [[CHR 0xC2, CHR 0x85], [CHR 0xC2, CHR 0xA0], [CHR 0xE1, CHR 0x9A, CHR 0x80],
      [CHR 0xE2, CHR 0x80, CHR 0x80], [CHR 0xE2, CHR 0x80, CHR 0x81],
      [CHR 0xE2, CHR 0x80, CHR 0x82], [CHR 0xE2, CHR 0x80, CHR 0x83],
      [CHR 0xE2, CHR 0x80, CHR 0x84], [CHR 0xE2, CHR 0x80, CHR 0x85],
      [CHR 0xE2, CHR 0x80, CHR 0x86], [CHR 0xE2, CHR 0x80, CHR 0x87],
      [CHR 0xE2, CHR 0x80, CHR 0x88], [CHR 0xE2, CHR 0x80, CHR 0x89],
      [CHR 0xE2, CHR 0x80, CHR 0x8A], [CHR 0xE2, CHR 0x80, CHR 0xA8],
      [CHR 0xE2, CHR 0x80, CHR 0xA9], [CHR 0xE2, CHR 0x80, CHR 0xAF],
      [CHR 0xE2, CHR 0x81, CHR 0x9F], [CHR 0xE3, CHR 0x80, CHR 0x80]]"

text \<open>The number of leading bytes of \<open>s\<close> that form one white-space character, 0 when
  \<open>s\<close> does not start with one; \<open>seqs\<close> are the multi-byte encodings to look for.\<close>

definition spaceWidth :: "string list \<Rightarrow> string \<Rightarrow> nat" where
  "spaceWidth seqs s =
     (case s of
        [] \<Rightarrow> 0
      | c # cs \<Rightarrow>
          if asciiSpace c then 1
          else (case find (\<lambda>q. prefix q s) seqs of
                  Some q \<Rightarrow> length q
                | None \<Rightarrow> 0))"

function dropSpace :: "string list \<Rightarrow> string \<Rightarrow> string" where
  "dropSpace seqs s =
     (if spaceWidth seqs s = 0 then s else dropSpace seqs (drop (spaceWidth seqs s) s))"
  by pat_completeness auto
termination
  by (relation "measure (\<lambda>(seqs, s). length s)") (auto simp: spaceWidth_def split: list.splits)

definition strings_TrimSpace :: "string \<Rightarrow> string" where
  "strings_TrimSpace s =
     rev (dropSpace (map rev unicodeSpace) (rev (dropSpace unicodeSpace s)))"

subsection \<open>Package fmt and numeric conversion\<close>

text \<open>The verb \<open>%d\<close> of \<open>fmt.Sprintf\<close> on an integer: its decimal digits, after a minus
  sign when it is negative.\<close>

fun decimal :: "nat \<Rightarrow> string" where
  "decimal n =
     (if n < 10 then [''0123456789'' ! n]
      else decimal (n div 10) @ [''0123456789'' ! (n mod 10)])"

declare decimal.simps [simp del]

definition Sprintf_d :: "int \<Rightarrow> string" where
  "Sprintf_d i = (if i < 0 then ''-'' @ decimal (nat (- i)) else decimal (nat i))"

text \<open>
  Go's \<open>int\<close> is taken at its width on a 64-bit platform, \<open>64 word\<close>: \<open>+\<close> wraps around
  and \<open>sint\<close> reads the signed value. A \<open>float64\<close> that arrives in a JSON argument is
  finite, hence a rational number, and is modelled as \<open>rat\<close>. The conversion \<open>int(v)\<close>
  discards the fraction (truncation towards zero); for a value outside the range of
  \<open>int\<close> Go leaves the result to the implementation, and the model takes what the
  amd64 conversion instruction yields there, the least \<open>int\<close>.
\<close>

type_synonym go_int = "64 word"

definition truncate_rat :: "rat \<Rightarrow> int" where
  "truncate_rat v = (if v < 0 then \<lceil>v\<rceil> else \<lfloor>v\<rfloor>)"

definition int_of_float64 :: "rat \<Rightarrow> go_int" where
  "int_of_float64 v =
     (let t = truncate_rat v in
      if - (2 ^ 63) \<le> t \<and> t < 2 ^ 63 then word_of_int t else word_of_int (- (2 ^ 63)))"

subsection \<open>Package net/url\<close>

text \<open>
  \<open>url.Values\<close> is a map from a parameter name to its list of values; \<open>Set\<close> replaces
  the values of a name by one value, \<open>Get\<close> reads the first value of a name and gives
  the empty string when there is none.
\<close>

type_synonym Values = "string \<rightharpoonup> string list"

definition Values_Set :: "Values \<Rightarrow> string \<Rightarrow> string \<Rightarrow> Values" where
  "Values_Set v key val = v(key \<mapsto> [val])"

definition Values_Get :: "Values \<Rightarrow> string \<Rightarrow> string" where
  "Values_Get v key = (case v key of None \<Rightarrow> [] | Some [] \<Rightarrow> [] | Some (x # xs) \<Rightarrow> x)"

text \<open>The fields of \<open>url.URL\<close>; \<open>User\<close> holds the user name and the password when
  one is set.\<close>

record URL =
  Scheme :: string
  Opaque :: string
  User :: "(string \<times> string option) option"
  Host :: string
  Path :: string
  RawPath :: string
  OmitHost :: bool
  ForceQuery :: bool
  RawQuery :: string
  Fragment :: string
  RawFragment :: string

text \<open>
  \<open>url.Parse\<close> and the method \<open>String\<close> of \<open>url.URL\<close> belong to Go's standard
  library, not to this repository. The configuration loader takes them as parameters:
  \<open>url_Parse\<close> gives the error text or the parsed URL, \<open>url_String\<close> reassembles a
  URL into a string.
\<close>

record net_url =
  url_Parse :: "string \<Rightarrow> string + URL"
  url_String :: "URL \<Rightarrow> string"

section \<open>Configuration\<close>

record ConfluenceConfig =
  BaseURL :: string
  Token :: string

definition defaultLimit :: go_int where
  "defaultLimit = 25"

text \<open>
  \<open>loadConfig\<close> (main.go, lines 31 to 70) reads the environment through
  \<open>os.Getenv\<close>, which gives the empty string for a variable that is not set; the
  environment is the function \<open>getenv\<close>. The function is written in the pieces it is
  made of: the choice of the raw URL (lines 37 to 43), the default scheme (lines 49 to
  51), the API root appended to the path (lines 62 to 64), the URL value and token the
  function has reached at line 64 (\<open>loadConfigURL\<close>), and the descriptor built from
  them (lines 66 to 69).
\<close>

definition rawURLFromEnv :: "(string \<Rightarrow> string) \<Rightarrow> string" where
  "rawURLFromEnv getenv =
     (let rawURL = getenv ''CONFLUENCE_BASE_URL'';
          rawURL = (if rawURL = [] then getenv ''CONFLUENCE_API_BASE_PATH'' else rawURL);
          rawURL = (if rawURL = [] then getenv ''CONFLUENCE_HOST'' else rawURL)
      in rawURL)"

definition withDefaultScheme :: "string \<Rightarrow> string" where
  "withDefaultScheme rawURL =
     (if \<not> strings_Contains rawURL ''://'' then ''https://'' @ rawURL else rawURL)"

definition withAPIRoot :: "URL \<Rightarrow> URL" where
  "withAPIRoot u =
     (if \<not> strings_Contains (Path u) ''/rest/api''
      then u\<lparr>Path := strings_TrimSuffix (Path u) ''/'' @ ''/rest/api''\<rparr>
      else u)"

definition loadConfigURL :: "net_url \<Rightarrow> (string \<Rightarrow> string) \<Rightarrow> string + (URL \<times> string)" where
  "loadConfigURL lib getenv =
     (let token = getenv ''CONFLUENCE_API_TOKEN'' in
      if token = [] then Inl ''CONFLUENCE_API_TOKEN environment variable is required''
      else
        let rawURL = rawURLFromEnv getenv in
        if rawURL = []
        then Inl ''CONFLUENCE_BASE_URL (or CONFLUENCE_HOST) environment variable is required''
        else
          (case url_Parse lib (withDefaultScheme rawURL) of
             Inl err \<Rightarrow> Inl (''invalid base URL: '' @ err)
           | Inr u \<Rightarrow>
               if \<not> strings_HasPrefix (Scheme u) ''http''
               then Inl ''base URL must use http or https scheme''
               else Inr (withAPIRoot u, token)))"

definition loadConfig :: "net_url \<Rightarrow> (string \<Rightarrow> string) \<Rightarrow> string + ConfluenceConfig" where
  "loadConfig lib getenv =
     (case loadConfigURL lib getenv of
        Inl err \<Rightarrow> Inl err
      | Inr (u, token) \<Rightarrow> Inr \<lparr>BaseURL = url_String lib u, Token = token\<rparr>)"

section \<open>Content model\<close>

text \<open>The structs of main.go, lines 172 to 208; a pointer field is an option, \<open>nil\<close>
  being \<open>None\<close>.\<close>

record SpaceRef =
  Key :: string

record BodyStorage =
  Value :: string
  Representation :: string

record Body =
  Storage :: "BodyStorage option"

record Version =
  Number :: go_int
  Message :: string

record Ancestor =
  AncestorID :: string

record ConfluencePage =
  ID :: string
  Type :: string
  Title :: string
  Space :: "SpaceRef option"
  Body :: "Body option"
  Version :: "Version option"
  Ancestors :: "Ancestor list"

section \<open>Transport client\<close>

text \<open>
  A call of \<open>executeRequest\<close> is described by its arguments. What comes back is either
  an error (the base URL does not parse, the body cannot be marshalled, the request
  cannot be created or the network fails) or a response: its status code and its body,
  a stream that delivers \<open>BodyData\<close> and then ends, normally (\<open>None\<close>) or with a read
  error.
\<close>

record Call =
  callMethod :: string
  callPath :: string
  callQuery :: Values
  callBody :: "ConfluencePage option"

record Response =
  StatusCode :: int
  BodyData :: string
  BodyErr :: "string option"

text \<open>
  The client holds its configuration. The HTTP exchange itself and the JSON decoder are
  outside this repository: \<open>roundTrip\<close> answers a call in a state \<open>'w\<close> of the remote
  side and gives the state after it; \<open>decodePage\<close> is \<open>json.Decoder.Decode\<close> into a
  \<open>ConfluencePage\<close>, reading the body stream.
\<close>

record 'w ConfluenceClient =
  config :: ConfluenceConfig
  roundTrip :: "ConfluenceConfig \<Rightarrow> Call \<Rightarrow> 'w \<Rightarrow> (string + Response) \<times> 'w"
  decodePage :: "string \<Rightarrow> string option \<Rightarrow> string + ConfluencePage"

text \<open>The state threaded through the handlers: the remote side, and the calls of
  \<open>executeRequest\<close> made so far, each with what came back, oldest first.\<close>

record 'w Net =
  remote :: 'w
  exchanges :: "(Call \<times> (string + Response)) list"

text \<open>
  \<open>executeRequest\<close> (main.go, lines 90 to 126) joins the path onto the base URL,
  encodes the query, marshals the body, sets the headers and performs the exchange.
  None of the properties below looks inside these steps: the model records the call
  and takes the outcome of all of them from \<open>roundTrip\<close>, which is given the
  configuration, so the error text of a failed step is the one \<open>roundTrip\<close> gives.
\<close>

definition executeRequest ::
  "'w ConfluenceClient \<Rightarrow> string \<Rightarrow> string \<Rightarrow> Values \<Rightarrow> ConfluencePage option \<Rightarrow> 'w Net
     \<Rightarrow> (string + Response) \<times> 'w Net" where
  "executeRequest c m p q b s =
     (let call = \<lparr>callMethod = m, callPath = p, callQuery = q, callBody = b\<rparr>;
          (r, w) = roundTrip c (config c) call (remote s)
      in (r, \<lparr>remote = w, exchanges = exchanges s @ [(call, r)]\<rparr>))"

text \<open>\<open>io.ReadAll\<close> on the body: all of its data, or the read error.
  \<open>io.ReadAll(io.LimitReader(body, n))\<close> stops after \<open>n\<close> bytes; main.go drops its
  error, so only the data read is modelled.\<close>

definition io_ReadAll :: "Response \<Rightarrow> string + string" where
  "io_ReadAll resp = (case BodyErr resp of None \<Rightarrow> Inr (BodyData resp) | Some e \<Rightarrow> Inl e)"

definition io_ReadAll_Limit :: "Response \<Rightarrow> nat \<Rightarrow> string" where
  "io_ReadAll_Limit resp n = take n (BodyData resp)"

text \<open>\<open>doRequest\<close> (main.go, lines 130 to 149).\<close>

definition doRequest ::
  "'w ConfluenceClient \<Rightarrow> string \<Rightarrow> string \<Rightarrow> Values \<Rightarrow> ConfluencePage option \<Rightarrow> 'w Net
     \<Rightarrow> (string + string) \<times> 'w Net" where
  "doRequest c m p q b s =
     (case executeRequest c m p q b s of
        (Inl err, s') \<Rightarrow> (Inl err, s')
      | (Inr resp, s') \<Rightarrow>
          (case io_ReadAll resp of
             Inl err \<Rightarrow> (Inl (''failed to read response body: '' @ err), s')
           | Inr respBytes \<Rightarrow>
               if StatusCode resp \<ge> 400
               then (Inl (''API error (status '' @ Sprintf_d (StatusCode resp) @ ''): ''
                            @ respBytes), s')
               else (Inr respBytes, s')))"

text \<open>\<open>getJSON\<close> (main.go, lines 152 to 170), with a \<open>ConfluencePage\<close> as target.\<close>

definition getJSON ::
  "'w ConfluenceClient \<Rightarrow> string \<Rightarrow> Values \<Rightarrow> 'w Net \<Rightarrow> (string + ConfluencePage) \<times> 'w Net" where
  "getJSON c p q s =
     (case executeRequest c ''GET'' p q None s of
        (Inl err, s') \<Rightarrow> (Inl err, s')
      | (Inr resp, s') \<Rightarrow>
          if StatusCode resp \<ge> 400
          then (let respBytes = io_ReadAll_Limit resp 1024
                in (Inl (''API error (status '' @ Sprintf_d (StatusCode resp) @ ''): ''
                           @ respBytes), s'))
          else (case decodePage c (BodyData resp) (BodyErr resp) of
                  Inl err \<Rightarrow> (Inl (''failed to decode JSON: '' @ err), s')
                | Inr target \<Rightarrow> (Inr target, s')))"

section \<open>Argument mapper\<close>

text \<open>
  \<open>ensureExpand(current, required)\<close> (main.go, lines 223 to 234). The loop over the
  pieces of \<open>current\<close> returns at the first piece that equals \<open>required\<close> once
  trimmed, which is a search through the list of pieces.
\<close>

definition ensureExpand :: "string \<Rightarrow> string \<Rightarrow> string" where
  "ensureExpand current required =
     (if current = [] then required
      else let parts = strings_Split current (CHR '','') in
        (case find (\<lambda>p. strings_TrimSpace p = required) parts of
           Some p \<Rightarrow> current
         | None \<Rightarrow> current @ '','' @ required))"

text \<open>
  The arguments of a tool call are a value of type \<open>any\<close>: \<open>nil\<close>, a map from names to
  values, or something else. Of a value in the map the handlers ask only whether it is
  a string or a \<open>float64\<close>; every other dynamic type is \<open>AOther\<close>.
\<close>

datatype any = AString string | AFloat64 rat | AOther

datatype Arguments = ArgumentsNil | ArgumentsMap "string \<rightharpoonup> any" | ArgumentsOther

text \<open>The type assertions \<open>x.(string)\<close> and \<open>x.(float64)\<close> on the value found under a
  key, \<open>None\<close> when the key is missing or the value has another type.\<close>

definition asString :: "any option \<Rightarrow> string option" where
  "asString x = (case x of Some (AString v) \<Rightarrow> Some v | _ \<Rightarrow> None)"

definition asFloat64 :: "any option \<Rightarrow> rat option" where
  "asFloat64 x = (case x of Some (AFloat64 v) \<Rightarrow> Some v | _ \<Rightarrow> None)"

text \<open>\<open>v, _ := x.(string)\<close>: the string, or the empty string when the assertion
  fails.\<close>

definition stringOrEmpty :: "any option \<Rightarrow> string" where
  "stringOrEmpty x = (case asString x of Some v \<Rightarrow> v | None \<Rightarrow> [])"

text \<open>\<open>getArguments\<close> (main.go, lines 211 to 220).\<close>

definition getArguments :: "Arguments \<Rightarrow> string + (string \<rightharpoonup> any)" where
  "getArguments a =
     (case a of
        ArgumentsNil \<Rightarrow> Inr Map.empty
      | ArgumentsMap args \<Rightarrow> Inr args
      | ArgumentsOther \<Rightarrow> Inl ''arguments are not a JSON object'')"

text \<open>\<open>newQueryWithCommonArgs\<close> (main.go, lines 237 to 251).\<close>

definition newQueryWithCommonArgs :: "(string \<rightharpoonup> any) \<Rightarrow> Values" where
  "newQueryWithCommonArgs args =
     (let query = Map.empty;
          query = (case asFloat64 (args ''limit'') of
                     Some limit \<Rightarrow> Values_Set query ''limit'' (Sprintf_d (sint (int_of_float64 limit)))
                   | None \<Rightarrow> Values_Set query ''limit'' (Sprintf_d (sint defaultLimit)));
          query = (case asFloat64 (args ''start'') of
                     Some start \<Rightarrow> Values_Set query ''start'' (Sprintf_d (sint (int_of_float64 start)))
                   | None \<Rightarrow> query);
          query = (case asString (args ''expand'') of
                     Some expand \<Rightarrow> if expand \<noteq> [] then Values_Set query ''expand'' expand else query
                   | None \<Rightarrow> query)
      in query)"

section \<open>Operation handlers\<close>

text \<open>The result of a tool call, as \<open>mcp.NewToolResultText\<close> and
  \<open>mcp.NewToolResultError\<close> build it: one text, flagged as an error or not.\<close>

record CallToolResult =
  IsError :: bool
  Text :: string

definition NewToolResultText :: "string \<Rightarrow> CallToolResult" where
  "NewToolResultText t = \<lparr>IsError = False, Text = t\<rparr>"

definition NewToolResultError :: "string \<Rightarrow> CallToolResult" where
  "NewToolResultError t = \<lparr>IsError = True, Text = t\<rparr>"

text \<open>\<open>handleGetContent\<close> (main.go, lines 254 to 280).\<close>

definition handleGetContent ::
  "'w ConfluenceClient \<Rightarrow> Arguments \<Rightarrow> 'w Net \<Rightarrow> CallToolResult \<times> 'w Net" where
  "handleGetContent client req s =
     (case getArguments req of
        Inl err \<Rightarrow> (NewToolResultError err, s)
      | Inr args \<Rightarrow>
          (case asString (args ''contentId'') of
             None \<Rightarrow> (NewToolResultError ''contentId must be a string and is required'', s)
           | Some contentID \<Rightarrow>
               if contentID = []
               then (NewToolResultError ''contentId must be a string and is required'', s)
               else if strings_Contains contentID ''/'' \<or> strings_Contains contentID ''..''
               then (NewToolResultError ''invalid contentId format'', s)
               else
                 let query = newQueryWithCommonArgs args;
                     query = Values_Set query ''expand''
                               (ensureExpand (Values_Get query ''expand'') ''body.storage'')
                 in (case doRequest client ''GET'' (''/content/'' @ contentID) query None s of
                       (Inl err, s') \<Rightarrow> (NewToolResultError (''error getting content: '' @ err), s')
                     | (Inr resp, s') \<Rightarrow> (NewToolResultText resp, s'))))"

text \<open>\<open>handleSearchContent\<close> (main.go, lines 283 to 305).\<close>

definition handleSearchContent ::
  "'w ConfluenceClient \<Rightarrow> Arguments \<Rightarrow> 'w Net \<Rightarrow> CallToolResult \<times> 'w Net" where
  "handleSearchContent client req s =
     (case getArguments req of
        Inl err \<Rightarrow> (NewToolResultError err, s)
      | Inr args \<Rightarrow>
          (case asString (args ''cql'') of
             None \<Rightarrow> (NewToolResultError ''cql must be a string and is required'', s)
           | Some cql \<Rightarrow>
               if cql = []
               then (NewToolResultError ''cql must be a string and is required'', s)
               else
                 let query = newQueryWithCommonArgs args;
                     query = Values_Set query ''cql'' cql
                 in (case doRequest client ''GET'' ''/search'' query None s of
                       (Inl err, s') \<Rightarrow> (NewToolResultError (''error searching content: '' @ err), s')
                     | (Inr resp, s') \<Rightarrow> (NewToolResultText resp, s'))))"

text \<open>\<open>handleCreateContent\<close> (main.go, lines 308 to 358). A required string that is
  missing, of another type or empty ends the call with the same message.\<close>

definition handleCreateContent ::
  "'w ConfluenceClient \<Rightarrow> Arguments \<Rightarrow> 'w Net \<Rightarrow> CallToolResult \<times> 'w Net" where
  "handleCreateContent client req s =
     (case getArguments req of
        Inl err \<Rightarrow> (NewToolResultError err, s)
      | Inr args \<Rightarrow>
          let title = stringOrEmpty (args ''title'') in
          if title = [] then (NewToolResultError ''title is required'', s)
          else
            let spaceKey = stringOrEmpty (args ''spaceKey'') in
            if spaceKey = [] then (NewToolResultError ''spaceKey is required'', s)
            else
              let contentStr = stringOrEmpty (args ''content'') in
              if contentStr = [] then (NewToolResultError ''content is required'', s)
              else
                let typeStr = stringOrEmpty (args ''type'');
                    typeStr = (if typeStr = [] then ''page'' else typeStr);
                    parentID = stringOrEmpty (args ''parentId'');
                    payload = \<lparr>ID = [], Type = typeStr, Title = title,
                               Space = Some \<lparr>Key = spaceKey\<rparr>,
                               Body = Some \<lparr>Storage = Some \<lparr>Value = contentStr,
                                                               Representation = ''storage''\<rparr>\<rparr>,
                               Version = None, Ancestors = []\<rparr>;
                    payload = (if parentID \<noteq> []
                               then payload\<lparr>Ancestors := [\<lparr>AncestorID = parentID\<rparr>]\<rparr>
                               else payload)
                in (case doRequest client ''POST'' ''/content'' Map.empty (Some payload) s of
                      (Inl err, s') \<Rightarrow> (NewToolResultError (''error creating content: '' @ err), s')
                    | (Inr resp, s') \<Rightarrow> (NewToolResultText resp, s')))"

text \<open>
  \<open>handleUpdateContent\<close> (main.go, lines 361 to 432). The effective version of lines
  384 to 392 and the payload of lines 394 to 423 are functions of the arguments and of
  the item that was fetched; the handler below puts them between the GET and the PUT.
\<close>

definition newVersion :: "(string \<rightharpoonup> any) \<Rightarrow> ConfluencePage \<Rightarrow> string + go_int" where
  "newVersion args currentData =
     (case asFloat64 (args ''version'') of
        Some v \<Rightarrow> Inr (int_of_float64 v)
      | None \<Rightarrow>
          (case Version currentData of
             None \<Rightarrow> Inl ''could not determine current version from API response''
           | Some ver \<Rightarrow> Inr (Number ver + 1)))"

definition updatePayload ::
  "(string \<rightharpoonup> any) \<Rightarrow> string \<Rightarrow> ConfluencePage \<Rightarrow> go_int \<Rightarrow> ConfluencePage" where
  "updatePayload args contentID currentData newVer =
     (let title = stringOrEmpty (args ''title'');
          contentStr = stringOrEmpty (args ''content'');
          versionComment = stringOrEmpty (args ''versionComment'');
          payload = \<lparr>ID = contentID, Type = Type currentData, Title = [],
                     Space = Space currentData, Body = None,
                     Version = Some \<lparr>Number = newVer, Message = versionComment\<rparr>,
                     Ancestors = []\<rparr>;
          payload = (if title \<noteq> [] then payload\<lparr>Title := title\<rparr>
                     else payload\<lparr>Title := Title currentData\<rparr>);
          payload = (if contentStr \<noteq> []
                     then payload\<lparr>Body := Some \<lparr>Storage = Some \<lparr>Value = contentStr,
                                                   Representation = ''storage''\<rparr>\<rparr>\<rparr>
                     else if Body currentData \<noteq> None
                     then payload\<lparr>Body := Body currentData\<rparr>
                     else payload)
      in payload)"

definition handleUpdateContent ::
  "'w ConfluenceClient \<Rightarrow> Arguments \<Rightarrow> 'w Net \<Rightarrow> CallToolResult \<times> 'w Net" where
  "handleUpdateContent client req s =
     (case getArguments req of
        Inl err \<Rightarrow> (NewToolResultError err, s)
      | Inr args \<Rightarrow>
          (case asString (args ''contentId'') of
             None \<Rightarrow> (NewToolResultError ''contentId is required'', s)
           | Some contentID \<Rightarrow>
               if contentID = []
               then (NewToolResultError ''contentId is required'', s)
               else if strings_Contains contentID ''/'' \<or> strings_Contains contentID ''..''
               then (NewToolResultError ''invalid contentId format'', s)
               else
                 let query = newQueryWithCommonArgs args;
                     query = Values_Set query ''expand'' ''body.storage,version,space''
                 in (case getJSON client (''/content/'' @ contentID) query s of
                       (Inl err, s1) \<Rightarrow>
                         (NewToolResultError (''failed to retrieve current content: '' @ err), s1)
                     | (Inr currentData, s1) \<Rightarrow>
                         (case newVersion args currentData of
                            Inl err \<Rightarrow> (NewToolResultError err, s1)
                          | Inr newVer \<Rightarrow>
                              let payload = updatePayload args contentID currentData newVer
                              in (case doRequest client ''PUT'' (''/content/'' @ contentID)
                                         Map.empty (Some payload) s1 of
                                    (Inl err, s2) \<Rightarrow>
                                      (NewToolResultError (''error updating content: '' @ err), s2)
                                  | (Inr resp, s2) \<Rightarrow> (NewToolResultText resp, s2))))))"

text \<open>\<open>handleListSpaces\<close> (main.go, lines 435 to 460). The CQL of lines 442 to 449 is a
  function of the search text; the double quote is the byte 0x22 and the backslash the
  byte 0x5C.\<close>

definition spacesCQL :: "string \<Rightarrow> string" where
  "spacesCQL searchText =
     (if searchText = [] then ''type=space''
      else let safeSearchText = strings_ReplaceAll searchText (CHR 0x22) [CHR 0x5C, CHR 0x22]
           in ''type=space AND title ~ '' @ [CHR 0x22] @ safeSearchText @ [CHR 0x22])"

definition handleListSpaces ::
  "'w ConfluenceClient \<Rightarrow> Arguments \<Rightarrow> 'w Net \<Rightarrow> CallToolResult \<times> 'w Net" where
  "handleListSpaces client req s =
     (case getArguments req of
        Inl err \<Rightarrow> (NewToolResultError err, s)
      | Inr args \<Rightarrow>
          let searchText = stringOrEmpty (args ''searchText'');
              cql = spacesCQL searchText;
              query = newQueryWithCommonArgs args;
              query = Values_Set query ''cql'' cql
          in (case doRequest client ''GET'' ''/search'' query None s of
                (Inl err, s') \<Rightarrow> (NewToolResultError (''error listing spaces: '' @ err), s')
              | (Inr resp, s') \<Rightarrow> (NewToolResultText resp, s')))"

text \<open>The five handlers that \<open>setupServer\<close> registers (main.go, lines 463 to 511).\<close>

definition operations ::
  "('w ConfluenceClient \<Rightarrow> Arguments \<Rightarrow> 'w Net \<Rightarrow> CallToolResult \<times> 'w Net) list" where
  "operations =
     [handleGetContent, handleSearchContent, handleCreateContent, handleUpdateContent,
      handleListSpaces]"

text \<open>What each handler does with the outcome of \<open>doRequest\<close>: an error becomes an
  error result that starts with the phrase of the operation, a body becomes the text
  result.\<close>

definition respond :: "string \<Rightarrow> (string + string) \<times> 'w Net \<Rightarrow> CallToolResult \<times> 'w Net" where
  "respond phrase r =
     (case r of
        (Inl err, s') \<Rightarrow> (NewToolResultError (phrase @ err), s')
      | (Inr resp, s') \<Rightarrow> (NewToolResultText resp, s'))"

text \<open>The calls of \<open>executeRequest\<close> that a run added to the state.\<close>

definition callsMade :: "'w Net \<Rightarrow> Call list" where
  "callsMade s = map fst (exchanges s)"

text \<open>The number of positions of \<open>s\<close> at which \<open>sub\<close> occurs.\<close>

fun occurrences :: "string \<Rightarrow> string \<Rightarrow> nat" where
  "occurrences [] sub = (if sub = [] then 1 else 0)"
| "occurrences (c # cs) sub = (if prefix sub (c # cs) then 1 else 0) + occurrences cs sub"

section \<open>Example values\<close>

text \<open>
  An environment given by a table of its variables, and the library \<open>net/url\<close> at the
  inputs of a table: \<open>url.Parse\<close> of a listed string gives the listed URL.
  \<open>plainString\<close> is the method \<open>String\<close> of \<open>url.URL\<close> for a URL in which nothing
  needs escaping (user, host, path and fragment of unreserved characters and \<open>/\<close>): the
  scheme and a colon; then the opaque part if there is one, and otherwise \<open>//\<close>, the
  user and the host, and the path; then the query and the fragment. A URL with an
  opaque part is written without its path.
\<close>

definition envOf :: "(string \<times> string) list \<Rightarrow> string \<Rightarrow> string" where
  "envOf vars name = (case map_of vars name of Some v \<Rightarrow> v | None \<Rightarrow> [])"

definition plainURL :: "string \<Rightarrow> string \<Rightarrow> string \<Rightarrow> URL" where
  "plainURL scheme host p =
     \<lparr>Scheme = scheme, Opaque = [], User = None, Host = host, Path = p, RawPath = [],
      OmitHost = False, ForceQuery = False, RawQuery = [], Fragment = [], RawFragment = []\<rparr>"

definition opaqueURL :: "string \<Rightarrow> string \<Rightarrow> URL" where
  "opaqueURL scheme opaque =
     \<lparr>Scheme = scheme, Opaque = opaque, User = None, Host = [], Path = [], RawPath = [],
      OmitHost = False, ForceQuery = False, RawQuery = [], Fragment = [], RawFragment = []\<rparr>"

definition plainString :: "URL \<Rightarrow> string" where
  "plainString u =
     (let buf = (if Scheme u \<noteq> [] then Scheme u @ '':'' else []);
          buf =
            (if Opaque u \<noteq> [] then buf @ Opaque u
             else
               let buf =
                     (if Scheme u \<noteq> [] \<or> Host u \<noteq> [] \<or> User u \<noteq> None
                      then (if OmitHost u \<and> Host u = [] \<and> User u = None then buf
                            else
                              let buf = (if Host u \<noteq> [] \<or> Path u \<noteq> [] \<or> User u \<noteq> None
                                         then buf @ ''//'' else buf);
                                  buf = (case User u of
                                           None \<Rightarrow> buf
                                         | Some (name, None) \<Rightarrow> buf @ name @ ''@''
                                         | Some (name, Some pw) \<Rightarrow> buf @ name @ '':'' @ pw @ ''@'')
                              in buf @ Host u)
                      else buf);
                   buf = (if Path u \<noteq> [] \<and> hd (Path u) \<noteq> CHR ''/'' \<and> Host u \<noteq> []
                          then buf @ ''/'' else buf);
                   buf = (if buf = [] \<and> CHR '':'' \<in> set (takeWhile (\<lambda>c. c \<noteq> CHR ''/'') (Path u))
                          then buf @ ''./'' else buf)
               in buf @ Path u);
          buf = (if ForceQuery u \<or> RawQuery u \<noteq> [] then buf @ ''?'' @ RawQuery u else buf);
          buf = (if Fragment u \<noteq> [] then buf @ ''#'' @ Fragment u else buf)
      in buf)"

definition urlTable :: "(string \<times> URL) list \<Rightarrow> net_url" where
  "urlTable parses =
     \<lparr>url_Parse = (\<lambda>raw. case map_of parses raw of
                            Some u \<Rightarrow> Inr u
                          | None \<Rightarrow> Inl ''not in the table''),
      url_String = plainString\<rparr>"

text \<open>
  A client in the manner of the test servers of main_test.go: every call is answered
  at once by \<open>answer\<close>, the remote side has no state, and the body of a successful GET
  decodes to \<open>page\<close>.
\<close>

definition testClient :: "(Call \<Rightarrow> string + Response) \<Rightarrow> ConfluencePage \<Rightarrow> unit ConfluenceClient" where
  "testClient answer page =
     \<lparr>config = \<lparr>BaseURL = ''https://example.com/rest/api'', Token = ''test-token''\<rparr>,
      roundTrip = (\<lambda>cfg call w. (answer call, w)),
      decodePage = (\<lambda>data err. Inr page)\<rparr>"

definition ok200 :: "Call \<Rightarrow> string + Response" where
  "ok200 call = Inr \<lparr>StatusCode = 200, BodyData = ''{}'', BodyErr = None\<rparr>"

text \<open>A server that answers with status 500 and the given body, and one whose body
  breaks off while it is read, as in \<open>TestDoRequestReadError\<close>.\<close>

definition error500 :: "string \<Rightarrow> Call \<Rightarrow> string + Response" where
  "error500 b call = Inr \<lparr>StatusCode = 500, BodyData = b, BodyErr = None\<rparr>"

definition truncated500 :: "Call \<Rightarrow> string + Response" where
  "truncated500 call =
     Inr \<lparr>StatusCode = 500, BodyData = ''too short'', BodyErr = Some ''unexpected EOF''\<rparr>"

definition startNet :: "unit Net" where
  "startNet = \<lparr>remote = (), exchanges = []\<rparr>"

definition currentPage :: ConfluencePage where
  "currentPage =
     \<lparr>ID = ''123'', Type = ''page'', Title = ''Current Title'', Space = Some \<lparr>Key = ''TS''\<rparr>,
      Body = Some \<lparr>Storage = Some \<lparr>Value = ''Current Content'',
                                      Representation = ''storage''\<rparr>\<rparr>,
      Version = Some \<lparr>Number = 1, Message = []\<rparr>, Ancestors = []\<rparr>"

section \<open>Properties\<close>

subsection \<open>The expansion list\<close>

lemma strings_TrimSpace_Nil: "strings_TrimSpace [] = []"
  by (simp add: strings_TrimSpace_def spaceWidth_def)

text \<open>
  C5: \<open>ensureExpand\<close> gives \<open>body.storage\<close> for the empty list, appends it to
  \<open>version\<close> after a comma, and leaves \<open>body.storage\<close> as it is. In general, when
  one of the comma-separated pieces of \<open>current\<close> equals \<open>required\<close> after trimming
  white space, the result is \<open>current\<close> itself: nothing is appended, removed or
  reordered.
\<close>

theorem ensureExpand_present:
  "ensureExpand '''' ''body.storage'' = ''body.storage''
   \<and> ensureExpand ''version'' ''body.storage'' = ''version,body.storage''
   \<and> ensureExpand ''body.storage'' ''body.storage'' = ''body.storage''
   \<and> ((\<exists>p \<in> set (strings_Split current (CHR '','')). strings_TrimSpace p = required)
        \<longrightarrow> ensureExpand current required = current)"
proof -
  have e1: "ensureExpand '''' ''body.storage'' = ''body.storage''"
    by (simp add: ensureExpand_def)
  have e2: "ensureExpand ''version'' ''body.storage'' = ''version,body.storage''"
    by (simp add: ensureExpand_def strings_TrimSpace_def spaceWidth_def asciiSpace_def
        unicodeSpace_def)
  have e3: "ensureExpand ''body.storage'' ''body.storage'' = ''body.storage''"
    by (simp add: ensureExpand_def strings_TrimSpace_def spaceWidth_def asciiSpace_def
        unicodeSpace_def)
  have e4: "ensureExpand current required = current"
    if ex: "\<exists>p \<in> set (strings_Split current (CHR '','')). strings_TrimSpace p = required"
  proof (cases "current = []")
    case True
    with ex have "required = []" by (simp add: strings_TrimSpace_Nil)
    with True show ?thesis by (simp add: ensureExpand_def)
  next
    case False
    from ex have "find (\<lambda>p. strings_TrimSpace p = required) (strings_Split current (CHR '','')) \<noteq> None"
      by (auto simp: find_None_iff)
    with False show ?thesis by (auto simp: ensureExpand_def)
  qed
  from e1 e2 e3 e4 show ?thesis by blast
qed

theorem ensureExpand_present_witness:
  "(\<exists>p \<in> set (strings_Split ''version, body.storage '' (CHR '','')).
       strings_TrimSpace p = ''body.storage'')
   \<and> ensureExpand ''version, body.storage '' ''body.storage'' = ''version, body.storage ''"
proof -
  have h: "\<exists>p \<in> set (strings_Split ''version, body.storage '' (CHR '','')).
       strings_TrimSpace p = ''body.storage''"
    by (simp add: strings_TrimSpace_def spaceWidth_def asciiSpace_def unicodeSpace_def)
  with ensureExpand_present [of "''version, body.storage ''" "''body.storage''"]
  show ?thesis by blast
qed

subsection \<open>Strings and the record of calls\<close>

lemma strings_Contains_iff: "strings_Contains s sub \<longleftrightarrow> sublist sub s"
proof (induction s)
  case Nil
  then show ?case by simp
next
  case (Cons c cs)
  show ?case
    by (simp add: Cons.IH sublist_Cons_right)
qed

lemma strings_Contains_char: "strings_Contains s [c] \<longleftrightarrow> c \<in> set s"
  by (induction s) auto

lemma strings_Contains_appendI: "strings_Contains (a @ b @ c) b"
  by (simp add: strings_Contains_iff sublist_def) blast

lemma strings_ReplaceAll_concat:
  "strings_ReplaceAll t old new = concat (map (\<lambda>c. if c = old then new else [c]) t)"
  by (induction t) auto

lemma executeRequest_exchanges:
  "executeRequest c m p q b s = (r, s') \<Longrightarrow>
     exchanges s' = exchanges s @ [(\<lparr>callMethod = m, callPath = p, callQuery = q, callBody = b\<rparr>, r)]"
  by (auto simp: executeRequest_def Let_def split: prod.splits)

lemma executeRequest_callsMade:
  "executeRequest c m p q b s = (r, s') \<Longrightarrow>
     callsMade s' = callsMade s @ [\<lparr>callMethod = m, callPath = p, callQuery = q, callBody = b\<rparr>]"
  by (simp add: callsMade_def executeRequest_exchanges)

lemma doRequest_callsMade:
  "callsMade (snd (doRequest c m p q b s)) =
     callsMade s @ [\<lparr>callMethod = m, callPath = p, callQuery = q, callBody = b\<rparr>]"
proof (cases "executeRequest c m p q b s")
  case (Pair r s')
  then show ?thesis
    by (auto simp: doRequest_def executeRequest_callsMade split: sum.splits)
qed

lemma getJSON_callsMade:
  "callsMade (snd (getJSON c p q s)) =
     callsMade s @ [\<lparr>callMethod = ''GET'', callPath = p, callQuery = q, callBody = None\<rparr>]"
proof (cases "executeRequest c ''GET'' p q None s")
  case (Pair r s')
  then show ?thesis
    by (auto simp: getJSON_def Let_def executeRequest_callsMade split: sum.splits)
qed

subsection \<open>Identifiers that could leave the content path\<close>

text \<open>
  C4: when the argument \<open>contentId\<close> is a string that contains the character \<open>/\<close> or
  the substring \<open>..\<close>, get-content and update-content both end with the error result
  \<open>invalid contentId format\<close> and the state they were started in: no call of the
  transport client has been made.
\<close>

theorem contentId_traversal_rejected:
  assumes "args ''contentId'' = Some (AString contentID)"
    and "CHR ''/'' \<in> set contentID \<or> sublist ''..'' contentID"
  shows "handleGetContent client (ArgumentsMap args) s
           = (NewToolResultError ''invalid contentId format'', s)
       \<and> handleUpdateContent client (ArgumentsMap args) s
           = (NewToolResultError ''invalid contentId format'', s)
       \<and> IsError (NewToolResultError ''invalid contentId format'')"
proof -
  from assms(2) have bad: "strings_Contains contentID ''/'' \<or> strings_Contains contentID ''..''"
    by (simp add: strings_Contains_iff strings_Contains_char [symmetric])
  then have ne: "contentID \<noteq> []" by auto
  from assms(1) have str: "asString (args ''contentId'') = Some contentID"
    by (simp add: asString_def)
  have g: "handleGetContent client (ArgumentsMap args) s
             = (NewToolResultError ''invalid contentId format'', s)"
    using bad ne str by (simp add: handleGetContent_def getArguments_def)
  have u: "handleUpdateContent client (ArgumentsMap args) s
             = (NewToolResultError ''invalid contentId format'', s)"
    using bad ne str by (simp add: handleUpdateContent_def getArguments_def)
  from g u show ?thesis by (simp add: NewToolResultError_def)
qed

theorem contentId_traversal_rejected_witness:
  "handleGetContent (testClient ok200 currentPage)
       (ArgumentsMap [''contentId'' \<mapsto> AString ''../admin'']) startNet
     = (NewToolResultError ''invalid contentId format'', startNet)
   \<and> handleUpdateContent (testClient ok200 currentPage)
       (ArgumentsMap [''contentId'' \<mapsto> AString ''../admin'']) startNet
     = (NewToolResultError ''invalid contentId format'', startNet)"
  using contentId_traversal_rejected [where args = "[''contentId'' \<mapsto> AString ''../admin'']"
      and contentID = "''../admin''" and client = "testClient ok200 currentPage" and s = startNet]
  by simp

subsection \<open>The query of list-spaces\<close>

text \<open>
  C8: list-spaces makes one call, a GET of \<open>/search\<close>. Without a \<open>searchText\<close>
  argument its \<open>cql\<close> parameter is \<open>type=space\<close>. With a non-empty \<open>searchText\<close> it is
  \<open>type=space AND title ~ "t"\<close>, where \<open>t\<close> is the search text with a backslash put
  before each double quote.
\<close>

theorem listSpaces_cql:
  assumes "getArguments req = Inr args"
  shows "(args ''searchText'' = None \<longrightarrow>
            callsMade (snd (handleListSpaces client req s)) =
              callsMade s @ [\<lparr>callMethod = ''GET'', callPath = ''/search'',
                 callQuery = (newQueryWithCommonArgs args)(''cql'' \<mapsto> [''type=space'']),
                 callBody = None\<rparr>])
       \<and> (\<forall>t. args ''searchText'' = Some (AString t) \<and> t \<noteq> [] \<longrightarrow>
            callsMade (snd (handleListSpaces client req s)) =
              callsMade s @ [\<lparr>callMethod = ''GET'', callPath = ''/search'',
                 callQuery = (newQueryWithCommonArgs args)(''cql'' \<mapsto>
                    [''type=space AND title ~ '' @ [CHR 0x22]
                       @ concat (map (\<lambda>c. if c = CHR 0x22 then [CHR 0x5C, CHR 0x22] else [c]) t)
                       @ [CHR 0x22]]),
                 callBody = None\<rparr>])"
proof -
  have run: "callsMade (snd (handleListSpaces client req s)) =
       callsMade s @ [\<lparr>callMethod = ''GET'', callPath = ''/search'',
          callQuery = (newQueryWithCommonArgs args)(''cql'' \<mapsto>
             [spacesCQL (stringOrEmpty (args ''searchText''))]),
          callBody = None\<rparr>]"
  proof -
    let ?q = "Values_Set (newQueryWithCommonArgs args) ''cql''
                (spacesCQL (stringOrEmpty (args ''searchText'')))"
    have "handleListSpaces client req s =
            (case doRequest client ''GET'' ''/search'' ?q None s of
               (Inl err, s') \<Rightarrow> (NewToolResultError (''error listing spaces: '' @ err), s')
             | (Inr resp, s') \<Rightarrow> (NewToolResultText resp, s'))"
      using assms by (simp add: handleListSpaces_def Let_def)
    then have "snd (handleListSpaces client req s) = snd (doRequest client ''GET'' ''/search'' ?q None s)"
      by (simp split: prod.splits sum.splits)
    then show ?thesis
      by (simp add: doRequest_callsMade Values_Set_def)
  qed
  show ?thesis
    using run
    by (auto simp: stringOrEmpty_def asString_def spacesCQL_def strings_ReplaceAll_concat Let_def)
qed

theorem listSpaces_cql_witness:
  "callsMade (snd (handleListSpaces (testClient ok200 currentPage) ArgumentsNil startNet)) =
     [\<lparr>callMethod = ''GET'', callPath = ''/search'',
       callQuery = [''limit'' \<mapsto> [''25''], ''cql'' \<mapsto> [''type=space'']], callBody = None\<rparr>]
   \<and> callsMade (snd (handleListSpaces (testClient ok200 currentPage)
         (ArgumentsMap [''searchText'' \<mapsto> AString (''a '' @ [CHR 0x22] @ ''b'' @ [CHR 0x22])])
         startNet)) =
     [\<lparr>callMethod = ''GET'', callPath = ''/search'',
       callQuery = [''limit'' \<mapsto> [''25''],
          ''cql'' \<mapsto> [''type=space AND title ~ '' @ [CHR 0x22] @ ''a ''
             @ [CHR 0x5C, CHR 0x22] @ ''b'' @ [CHR 0x5C, CHR 0x22] @ [CHR 0x22]]],
       callBody = None\<rparr>]"
proof -
  have q0: "newQueryWithCommonArgs Map.empty = [''limit'' \<mapsto> [''25'']]"
    by (simp add: newQueryWithCommonArgs_def asFloat64_def asString_def Values_Set_def
        defaultLimit_def Sprintf_d_def decimal.simps)
  have q1: "newQueryWithCommonArgs [''searchText'' \<mapsto> AString t] = [''limit'' \<mapsto> [''25'']]" for t
    by (simp add: newQueryWithCommonArgs_def asFloat64_def asString_def Values_Set_def
        defaultLimit_def Sprintf_d_def decimal.simps)
  have a: "getArguments ArgumentsNil = Inr Map.empty"
    by (simp add: getArguments_def)
  have b: "getArguments (ArgumentsMap [''searchText'' \<mapsto> AString t]) = Inr [''searchText'' \<mapsto> AString t]" for t
    by (simp add: getArguments_def)
  from listSpaces_cql [OF a, where client = "testClient ok200 currentPage" and s = startNet]
       listSpaces_cql [OF b, where client = "testClient ok200 currentPage" and s = startNet]
  show ?thesis
    by (simp add: q0 q1 callsMade_def startNet_def)
qed

subsection \<open>The read-modify-write of update-content\<close>

lemma handleUpdateContent_valid:
  assumes "getArguments req = Inr args"
    and "asString (args ''contentId'') = Some contentID"
    and "contentID \<noteq> []"
    and "\<not> strings_Contains contentID ''/''"
    and "\<not> strings_Contains contentID ''..''"
  shows "handleUpdateContent client req s =
     (case getJSON client (''/content/'' @ contentID)
             ((newQueryWithCommonArgs args)(''expand'' \<mapsto> [''body.storage,version,space''])) s of
        (Inl err, s1) \<Rightarrow>
          (NewToolResultError (''failed to retrieve current content: '' @ err), s1)
      | (Inr currentData, s1) \<Rightarrow>
          (case newVersion args currentData of
             Inl err \<Rightarrow> (NewToolResultError err, s1)
           | Inr newVer \<Rightarrow>
               (case doRequest client ''PUT'' (''/content/'' @ contentID) Map.empty
                       (Some (updatePayload args contentID currentData newVer)) s1 of
                  (Inl err, s2) \<Rightarrow> (NewToolResultError (''error updating content: '' @ err), s2)
                | (Inr resp, s2) \<Rightarrow> (NewToolResultText resp, s2))))"
  using assms
  by (simp add: handleUpdateContent_def Let_def Values_Set_def split: prod.splits sum.splits)

lemma handleUpdateContent_put:
  assumes "getArguments req = Inr args"
    and "asString (args ''contentId'') = Some contentID"
    and "contentID \<noteq> []"
    and "\<not> strings_Contains contentID ''/''"
    and "\<not> strings_Contains contentID ''..''"
    and "getJSON client (''/content/'' @ contentID)
           ((newQueryWithCommonArgs args)(''expand'' \<mapsto> [''body.storage,version,space''])) s
         = (Inr currentData, s1)"
    and "newVersion args currentData = Inr newVer"
  shows "callsMade (snd (handleUpdateContent client req s)) =
           callsMade s1 @ [\<lparr>callMethod = ''PUT'', callPath = ''/content/'' @ contentID,
              callQuery = Map.empty,
              callBody = Some (updatePayload args contentID currentData newVer)\<rparr>]"
proof -
  let ?put = "doRequest client ''PUT'' (''/content/'' @ contentID) Map.empty
                (Some (updatePayload args contentID currentData newVer)) s1"
  have "snd (handleUpdateContent client req s) = snd ?put"
    using assms(6,7)
    by (simp add: handleUpdateContent_valid [OF assms(1-5)] split: prod.splits sum.splits)
  then show ?thesis by (simp add: doRequest_callsMade)
qed

lemma updatePayload_Version:
  "Version (updatePayload args contentID currentData newVer) =
     Some \<lparr>Number = newVer, Message = stringOrEmpty (args ''versionComment'')\<rparr>"
  by (simp add: updatePayload_def Let_def)

lemma updatePayload_Title:
  "Title (updatePayload args contentID currentData newVer) =
     (if stringOrEmpty (args ''title'') \<noteq> [] then stringOrEmpty (args ''title'')
      else Title currentData)"
  by (simp add: updatePayload_def Let_def)

lemma updatePayload_Body:
  "Body (updatePayload args contentID currentData newVer) =
     (if stringOrEmpty (args ''content'') \<noteq> []
      then Some \<lparr>Storage = Some \<lparr>Value = stringOrEmpty (args ''content''),
                                   Representation = ''storage''\<rparr>\<rparr>
      else Body currentData)"
  by (simp add: updatePayload_def Let_def)

text \<open>The two operations on \<open>int\<close> that the version takes part in, read as integers:
  the conversion of a \<open>float64\<close> within the range of \<open>int\<close> is its truncation towards
  zero, and adding 1 below the largest \<open>int\<close> is the successor.\<close>

lemma int_of_float64_sint:
  "- (2 ^ 63) \<le> truncate_rat v \<Longrightarrow> truncate_rat v < 2 ^ 63 \<Longrightarrow>
     sint (int_of_float64 v) = truncate_rat v"
  by (simp add: int_of_float64_def Let_def sint_sbintrunc' signed_take_bit_int_eq_self_iff)

lemma go_int_succ_sint:
  assumes "sint (n :: go_int) < 2 ^ 63 - 1"
  shows "sint (n + 1) = sint n + 1"
proof -
  have lo: "- (2 ^ 63) \<le> sint n"
    using sint_ge [of n] by simp
  have "sint (n + 1) = signed_take_bit 63 (sint n + 1)"
    by (simp add: sint_word_add)
  also have "\<dots> = sint n + 1"
    using lo assms by (simp add: signed_take_bit_int_eq_self_iff)
  finally show ?thesis .
qed

text \<open>
  C1, as the code has it: for an update-content call whose preliminary GET succeeds
  with the item \<open>currentData\<close>: when the argument \<open>version\<close> is a number \<open>v\<close>, the PUT
  that follows carries the version number \<open>int(v)\<close>, whatever version the fetched item
  has, and that number is \<open>v\<close> truncated towards zero when the truncation lies in the
  range of \<open>int\<close>; when there is no numeric \<open>version\<close> argument and the fetched item
  has a version block with number \<open>n\<close>, the PUT carries \<open>n + 1\<close> in the arithmetic of
  \<open>int\<close>, which is the integer \<open>n + 1\<close> when \<open>n\<close> is below the largest \<open>int\<close>; when
  there is neither, the handler ends with an error result and the GET is the only call
  it has made.
\<close>

theorem update_version:
  assumes "getArguments req = Inr args"
    and "asString (args ''contentId'') = Some contentID"
    and "contentID \<noteq> []"
    and "\<not> strings_Contains contentID ''/''"
    and "\<not> strings_Contains contentID ''..''"
    and "getJSON client (''/content/'' @ contentID)
           ((newQueryWithCommonArgs args)(''expand'' \<mapsto> [''body.storage,version,space''])) s
         = (Inr currentData, s1)"
  shows "(\<forall>v. args ''version'' = Some (AFloat64 v) \<longrightarrow>
            callsMade (snd (handleUpdateContent client req s)) =
              callsMade s1 @ [\<lparr>callMethod = ''PUT'', callPath = ''/content/'' @ contentID,
                 callQuery = Map.empty,
                 callBody = Some (updatePayload args contentID currentData (int_of_float64 v))\<rparr>]
            \<and> map_option Number
                 (Version (updatePayload args contentID currentData (int_of_float64 v)))
                = Some (int_of_float64 v)
            \<and> (- (2 ^ 63) \<le> truncate_rat v \<and> truncate_rat v < 2 ^ 63 \<longrightarrow>
                 map_option (\<lambda>x. sint (Number x))
                   (Version (updatePayload args contentID currentData (int_of_float64 v)))
                  = Some (truncate_rat v)))
       \<and> (\<forall>ver. asFloat64 (args ''version'') = None \<and> Version currentData = Some ver \<longrightarrow>
            callsMade (snd (handleUpdateContent client req s)) =
              callsMade s1 @ [\<lparr>callMethod = ''PUT'', callPath = ''/content/'' @ contentID,
                 callQuery = Map.empty,
                 callBody = Some (updatePayload args contentID currentData (Number ver + 1))\<rparr>]
            \<and> map_option Number
                 (Version (updatePayload args contentID currentData (Number ver + 1)))
                = Some (Number ver + 1)
            \<and> (sint (Number ver) < 2 ^ 63 - 1 \<longrightarrow>
                 map_option (\<lambda>x. sint (Number x))
                   (Version (updatePayload args contentID currentData (Number ver + 1)))
                  = Some (sint (Number ver) + 1)))
       \<and> (asFloat64 (args ''version'') = None \<and> Version currentData = None \<longrightarrow>
            handleUpdateContent client req s =
              (NewToolResultError ''could not determine current version from API response'', s1)
            \<and> IsError (fst (handleUpdateContent client req s))
            \<and> callsMade (snd (handleUpdateContent client req s)) =
                 callsMade s @ [\<lparr>callMethod = ''GET'', callPath = ''/content/'' @ contentID,
                    callQuery = (newQueryWithCommonArgs args)
                                  (''expand'' \<mapsto> [''body.storage,version,space'']),
                    callBody = None\<rparr>])"
proof (intro conjI allI impI)
  fix v
  assume "args ''version'' = Some (AFloat64 v)"
  then have nv: "newVersion args currentData = Inr (int_of_float64 v)"
    by (simp add: newVersion_def asFloat64_def)
  from handleUpdateContent_put [OF assms nv]
  show "callsMade (snd (handleUpdateContent client req s)) =
              callsMade s1 @ [\<lparr>callMethod = ''PUT'', callPath = ''/content/'' @ contentID,
                 callQuery = Map.empty,
                 callBody = Some (updatePayload args contentID currentData (int_of_float64 v))\<rparr>]" .
  show "map_option Number (Version (updatePayload args contentID currentData (int_of_float64 v)))
          = Some (int_of_float64 v)"
    by (simp add: updatePayload_Version)
next
  fix v
  assume "- (2 ^ 63) \<le> truncate_rat v \<and> truncate_rat v < 2 ^ 63"
  then show "map_option (\<lambda>x. sint (Number x))
                   (Version (updatePayload args contentID currentData (int_of_float64 v)))
                  = Some (truncate_rat v)"
    by (simp add: updatePayload_Version int_of_float64_sint)
next
  fix ver
  assume "asFloat64 (args ''version'') = None \<and> Version currentData = Some ver"
  then have nv: "newVersion args currentData = Inr (Number ver + 1)"
    by (simp add: newVersion_def)
  from handleUpdateContent_put [OF assms nv]
  show "callsMade (snd (handleUpdateContent client req s)) =
              callsMade s1 @ [\<lparr>callMethod = ''PUT'', callPath = ''/content/'' @ contentID,
                 callQuery = Map.empty,
                 callBody = Some (updatePayload args contentID currentData (Number ver + 1))\<rparr>]" .
  show "map_option Number (Version (updatePayload args contentID currentData (Number ver + 1)))
          = Some (Number ver + 1)"
    by (simp add: updatePayload_Version)
next
  fix ver :: Version
  assume "sint (Number ver) < 2 ^ 63 - 1"
  then show "map_option (\<lambda>x. sint (Number x))
                   (Version (updatePayload args contentID currentData (Number ver + 1)))
                  = Some (sint (Number ver) + 1)"
    by (simp add: updatePayload_Version go_int_succ_sint)
next
  assume a: "asFloat64 (args ''version'') = None \<and> Version currentData = None"
  then have nv: "newVersion args currentData
                   = Inl ''could not determine current version from API response''"
    by (simp add: newVersion_def)
  show r: "handleUpdateContent client req s =
          (NewToolResultError ''could not determine current version from API response'', s1)"
    using assms(6) nv by (simp add: handleUpdateContent_valid [OF assms(1-5)])
  show "IsError (fst (handleUpdateContent client req s))"
    by (simp add: r NewToolResultError_def)
  from getJSON_callsMade [of client "''/content/'' @ contentID"
      "(newQueryWithCommonArgs args)(''expand'' \<mapsto> [''body.storage,version,space''])" s] assms(6)
  show "callsMade (snd (handleUpdateContent client req s)) =
                 callsMade s @ [\<lparr>callMethod = ''GET'', callPath = ''/content/'' @ contentID,
                    callQuery = (newQueryWithCommonArgs args)
                                  (''expand'' \<mapsto> [''body.storage,version,space'']),
                    callBody = None\<rparr>]"
    by (simp add: r)
qed

lemmas eval_defs =
  getArguments_def asString_def asFloat64_def stringOrEmpty_def
  newQueryWithCommonArgs_def Values_Set_def defaultLimit_def Sprintf_d_def decimal.simps
  getJSON_def doRequest_def executeRequest_def io_ReadAll_def io_ReadAll_Limit_def
  newVersion_def updatePayload_def testClient_def ok200_def startNet_def currentPage_def
  callsMade_def NewToolResultError_def NewToolResultText_def Let_def int_of_float64_def
  truncate_rat_def

lemma testClient_fetch:
  "getJSON (testClient ok200 page) p q startNet =
     (Inr page, \<lparr>remote = (), exchanges =
        [(\<lparr>callMethod = ''GET'', callPath = p, callQuery = q, callBody = None\<rparr>,
          Inr \<lparr>StatusCode = 200, BodyData = ''{}'', BodyErr = None\<rparr>)]\<rparr>)"
  by (simp add: getJSON_def executeRequest_def testClient_def ok200_def startNet_def)

theorem update_version_witness:
  "callsMade (snd (handleUpdateContent (testClient ok200 currentPage)
       (ArgumentsMap [''contentId'' \<mapsto> AString ''123'', ''version'' \<mapsto> AFloat64 10]) startNet)) =
     [\<lparr>callMethod = ''GET'', callPath = ''/content/123'',
       callQuery = [''limit'' \<mapsto> [''25''], ''expand'' \<mapsto> [''body.storage,version,space'']],
       callBody = None\<rparr>,
      \<lparr>callMethod = ''PUT'', callPath = ''/content/123'', callQuery = Map.empty,
       callBody = Some (currentPage\<lparr>Version := Some \<lparr>Number = 10, Message = []\<rparr>\<rparr>)\<rparr>]
   \<and> callsMade (snd (handleUpdateContent (testClient ok200 currentPage)
       (ArgumentsMap [''contentId'' \<mapsto> AString ''123'']) startNet)) =
     [\<lparr>callMethod = ''GET'', callPath = ''/content/123'',
       callQuery = [''limit'' \<mapsto> [''25''], ''expand'' \<mapsto> [''body.storage,version,space'']],
       callBody = None\<rparr>,
      \<lparr>callMethod = ''PUT'', callPath = ''/content/123'', callQuery = Map.empty,
       callBody = Some (currentPage\<lparr>Version := Some \<lparr>Number = 2, Message = []\<rparr>\<rparr>)\<rparr>]
   \<and> IsError (fst (handleUpdateContent (testClient ok200 (currentPage\<lparr>Version := None\<rparr>))
       (ArgumentsMap [''contentId'' \<mapsto> AString ''123'']) startNet))
   \<and> callsMade (snd (handleUpdateContent (testClient ok200 (currentPage\<lparr>Version := None\<rparr>))
       (ArgumentsMap [''contentId'' \<mapsto> AString ''123'']) startNet)) =
     [\<lparr>callMethod = ''GET'', callPath = ''/content/123'',
       callQuery = [''limit'' \<mapsto> [''25''], ''expand'' \<mapsto> [''body.storage,version,space'']],
       callBody = None\<rparr>]
   \<and> map_option (\<lambda>x. sint (Number x))
        (Version (updatePayload [''contentId'' \<mapsto> AString ''123'', ''version'' \<mapsto> AFloat64 10]
                    ''123'' currentPage (int_of_float64 10))) = Some 10
   \<and> map_option (\<lambda>x. sint (Number x))
        (Version (updatePayload [''contentId'' \<mapsto> AString ''123''] ''123'' currentPage (1 + 1)))
       = Some 2"
proof -
  let ?a1 = "[''contentId'' \<mapsto> AString ''123'', ''version'' \<mapsto> AFloat64 10]"
  let ?a2 = "[''contentId'' \<mapsto> AString ''123'']"
  have q1: "newQueryWithCommonArgs ?a1 = [''limit'' \<mapsto> [''25'']]"
    and q2: "newQueryWithCommonArgs ?a2 = [''limit'' \<mapsto> [''25'']]"
    by (simp_all add: eval_defs)
  note w1 = update_version [where req = "ArgumentsMap ?a1" and args = ?a1
      and contentID = "''123''" and client = "testClient ok200 currentPage" and s = startNet,
      OF _ _ _ _ _ testClient_fetch]
  note w2 = update_version [where req = "ArgumentsMap ?a2" and args = ?a2
      and contentID = "''123''" and client = "testClient ok200 currentPage" and s = startNet,
      OF _ _ _ _ _ testClient_fetch]
  note w3 = update_version [where req = "ArgumentsMap ?a2" and args = ?a2
      and contentID = "''123''" and client = "testClient ok200 (currentPage\<lparr>Version := None\<rparr>)"
      and s = startNet, OF _ _ _ _ _ testClient_fetch]
  have c1: "callsMade (snd (handleUpdateContent (testClient ok200 currentPage)
       (ArgumentsMap ?a1) startNet)) =
     [\<lparr>callMethod = ''GET'', callPath = ''/content/123'',
       callQuery = [''limit'' \<mapsto> [''25''], ''expand'' \<mapsto> [''body.storage,version,space'']],
       callBody = None\<rparr>,
      \<lparr>callMethod = ''PUT'', callPath = ''/content/123'', callQuery = Map.empty,
       callBody = Some (currentPage\<lparr>Version := Some \<lparr>Number = 10, Message = []\<rparr>\<rparr>)\<rparr>]"
    using w1 by (simp add: eval_defs)
  have c2: "callsMade (snd (handleUpdateContent (testClient ok200 currentPage)
       (ArgumentsMap ?a2) startNet)) =
     [\<lparr>callMethod = ''GET'', callPath = ''/content/123'',
       callQuery = [''limit'' \<mapsto> [''25''], ''expand'' \<mapsto> [''body.storage,version,space'']],
       callBody = None\<rparr>,
      \<lparr>callMethod = ''PUT'', callPath = ''/content/123'', callQuery = Map.empty,
       callBody = Some (currentPage\<lparr>Version := Some \<lparr>Number = 2, Message = []\<rparr>\<rparr>)\<rparr>]"
    using w2 by (simp add: eval_defs)
  have c3: "IsError (fst (handleUpdateContent (testClient ok200 (currentPage\<lparr>Version := None\<rparr>))
       (ArgumentsMap ?a2) startNet))
   \<and> callsMade (snd (handleUpdateContent (testClient ok200 (currentPage\<lparr>Version := None\<rparr>))
       (ArgumentsMap ?a2) startNet)) =
     [\<lparr>callMethod = ''GET'', callPath = ''/content/123'',
       callQuery = [''limit'' \<mapsto> [''25''], ''expand'' \<mapsto> [''body.storage,version,space'']],
       callBody = None\<rparr>]"
    using w3 by (simp add: eval_defs)
  have c4: "map_option (\<lambda>x. sint (Number x))
        (Version (updatePayload ?a1 ''123'' currentPage (int_of_float64 10))) = Some 10"
    using w1 by (simp add: getArguments_def asString_def asFloat64_def truncate_rat_def)
  have c5: "map_option (\<lambda>x. sint (Number x))
        (Version (updatePayload ?a2 ''123'' currentPage (1 + 1))) = Some 2"
    using w2 by (simp add: getArguments_def asString_def asFloat64_def currentPage_def)
  from c1 c2 c3 c4 c5 show ?thesis by blast
qed

text \<open>
  C1 as stated has no bound on the numbers. A fetched version 9223372036854775807, the
  largest \<open>int\<close>, is followed by a PUT with the version -9223372036854775808, which is
  not its successor; and the \<open>version\<close> argument 10000000000000000000, which no
  \<open>int\<close> holds, is submitted as -9223372036854775808 too.
\<close>

theorem update_version_counterexample:
  "map (\<lambda>c. (callMethod c,
               map_option (\<lambda>p. map_option (\<lambda>x. sint (Number x)) (Version p)) (callBody c)))
     (callsMade (snd (handleUpdateContent
        (testClient ok200 (currentPage\<lparr>Version := Some \<lparr>Number = 9223372036854775807,
                                                        Message = []\<rparr>\<rparr>))
        (ArgumentsMap [''contentId'' \<mapsto> AString ''123'']) startNet)))
     = [(''GET'', None), (''PUT'', Some (Some (- 9223372036854775808)))]
   \<and> (- 9223372036854775808 :: int) \<noteq> 9223372036854775807 + 1
   \<and> map (\<lambda>c. (callMethod c,
               map_option (\<lambda>p. map_option (\<lambda>x. sint (Number x)) (Version p)) (callBody c)))
     (callsMade (snd (handleUpdateContent (testClient ok200 currentPage)
        (ArgumentsMap [''contentId'' \<mapsto> AString ''123'',
                       ''version'' \<mapsto> AFloat64 10000000000000000000]) startNet)))
     = [(''GET'', None), (''PUT'', Some (Some (- 9223372036854775808)))]
   \<and> truncate_rat 10000000000000000000 = 10000000000000000000
   \<and> (- 9223372036854775808 :: int) \<noteq> 10000000000000000000"
  by (simp add: handleUpdateContent_def eval_defs)

lemma handleUpdateContent_fetch_first:
  assumes "getArguments req = Inr args"
    and "asString (args ''contentId'') = Some contentID"
    and "contentID \<noteq> []"
    and "\<not> strings_Contains contentID ''/''"
    and "\<not> strings_Contains contentID ''..''"
  shows "\<exists>rest. callsMade (snd (handleUpdateContent client req s)) =
           callsMade s @ \<lparr>callMethod = ''GET'', callPath = ''/content/'' @ contentID,
              callQuery = (newQueryWithCommonArgs args)
                            (''expand'' \<mapsto> [''body.storage,version,space'']),
              callBody = None\<rparr> # rest"
proof -
  let ?q = "(newQueryWithCommonArgs args)(''expand'' \<mapsto> [''body.storage,version,space''])"
  let ?get = "\<lparr>callMethod = ''GET'', callPath = ''/content/'' @ contentID,
                callQuery = ?q, callBody = None\<rparr>"
  obtain r s1 where g: "getJSON client (''/content/'' @ contentID) ?q s = (r, s1)"
    by (cases "getJSON client (''/content/'' @ contentID) ?q s") blast
  from getJSON_callsMade [of client "''/content/'' @ contentID" ?q s] g
  have c1: "callsMade s1 = callsMade s @ [?get]" by simp
  show ?thesis
  proof (cases r)
    case (Inl err)
    with g have "snd (handleUpdateContent client req s) = s1"
      by (simp add: handleUpdateContent_valid [OF assms])
    with c1 show ?thesis by simp
  next
    case (Inr currentData)
    show ?thesis
    proof (cases "newVersion args currentData")
      case (Inl err)
      with g Inr have "snd (handleUpdateContent client req s) = s1"
        by (simp add: handleUpdateContent_valid [OF assms])
      with c1 show ?thesis by simp
    next
      case nv: (Inr newVer)
      from g Inr have g': "getJSON client (''/content/'' @ contentID) ?q s = (Inr currentData, s1)"
        by simp
      from handleUpdateContent_put [OF assms g' nv] c1 show ?thesis by simp
    qed
  qed
qed

text \<open>
  C2, as the code has it: the preliminary GET of update-content is the first call the
  handler makes once the identifier is accepted. Its query holds \<open>expand\<close> with the
  value \<open>body.storage,version,space\<close>, whatever \<open>expand\<close> argument was given; it
  always holds \<open>limit\<close>, the \<open>limit\<close> argument converted to \<open>int\<close> or 25 without one;
  it holds \<open>start\<close> exactly when a numeric \<open>start\<close> argument is given; it holds no
  other parameter.
\<close>

theorem update_fetch_query:
  assumes "getArguments req = Inr args"
    and "asString (args ''contentId'') = Some contentID"
    and "contentID \<noteq> []"
    and "\<not> strings_Contains contentID ''/''"
    and "\<not> strings_Contains contentID ''..''"
  shows "\<exists>rest. callsMade (snd (handleUpdateContent client req s)) =
           callsMade s @ \<lparr>callMethod = ''GET'', callPath = ''/content/'' @ contentID,
              callQuery = (\<lambda>name.
                 if name = ''expand'' then Some [''body.storage,version,space'']
                 else if name = ''limit''
                   then Some [Sprintf_d (sint (case asFloat64 (args ''limit'') of
                                                 Some limit \<Rightarrow> int_of_float64 limit
                                               | None \<Rightarrow> 25))]
                 else if name = ''start''
                   then map_option (\<lambda>start. [Sprintf_d (sint (int_of_float64 start))])
                          (asFloat64 (args ''start''))
                 else None),
              callBody = None\<rparr> # rest"
proof -
  have "(newQueryWithCommonArgs args)(''expand'' \<mapsto> [''body.storage,version,space'']) =
        (\<lambda>name.
                 if name = ''expand'' then Some [''body.storage,version,space'']
                 else if name = ''limit''
                   then Some [Sprintf_d (sint (case asFloat64 (args ''limit'') of
                                                 Some limit \<Rightarrow> int_of_float64 limit
                                               | None \<Rightarrow> 25))]
                 else if name = ''start''
                   then map_option (\<lambda>start. [Sprintf_d (sint (int_of_float64 start))])
                          (asFloat64 (args ''start''))
                 else None)"
    by (rule ext)
      (simp add: newQueryWithCommonArgs_def Values_Set_def defaultLimit_def Let_def
        split: option.splits)
  with handleUpdateContent_fetch_first [OF assms, of client s] show ?thesis by simp
qed

theorem update_fetch_query_witness:
  "\<exists>rest. callsMade (snd (handleUpdateContent (testClient ok200 currentPage)
       (ArgumentsMap [''contentId'' \<mapsto> AString ''123'', ''start'' \<mapsto> AFloat64 5,
                      ''expand'' \<mapsto> AString ''history'']) startNet)) =
     \<lparr>callMethod = ''GET'', callPath = ''/content/123'',
       callQuery = [''limit'' \<mapsto> [''25''], ''start'' \<mapsto> [''5''],
                    ''expand'' \<mapsto> [''body.storage,version,space'']],
       callBody = None\<rparr> # rest"
proof -
  let ?a = "[''contentId'' \<mapsto> AString ''123'', ''start'' \<mapsto> AFloat64 5,
             ''expand'' \<mapsto> AString ''history'']"
  have q: "(\<lambda>name.
                 if name = ''expand'' then Some [''body.storage,version,space'']
                 else if name = ''limit''
                   then Some [Sprintf_d (sint (case asFloat64 (?a ''limit'') of
                                                 Some limit \<Rightarrow> int_of_float64 limit
                                               | None \<Rightarrow> 25))]
                 else if name = ''start''
                   then map_option (\<lambda>start. [Sprintf_d (sint (int_of_float64 start))])
                          (asFloat64 (?a ''start''))
                 else None)
           = [''limit'' \<mapsto> [''25''], ''start'' \<mapsto> [''5''],
              ''expand'' \<mapsto> [''body.storage,version,space'']]"
    by (rule ext) (simp add: eval_defs)
  from update_fetch_query [where req = "ArgumentsMap ?a" and args = ?a and contentID = "''123''"
      and client = "testClient ok200 currentPage" and s = startNet]
  show ?thesis
    unfolding q by (simp add: eval_defs)
qed

text \<open>
  C2 as stated asks for a query of the single parameter \<open>expand\<close>. For the arguments
  \<open>{contentId: "123"}\<close> the query of the GET also holds \<open>limit=25\<close>.
\<close>

theorem update_fetch_query_counterexample:
  "callQuery (hd (callsMade (snd (handleUpdateContent (testClient ok200 currentPage)
       (ArgumentsMap [''contentId'' \<mapsto> AString ''123'']) startNet))))
     = [''limit'' \<mapsto> [''25''], ''expand'' \<mapsto> [''body.storage,version,space'']]
   \<and> [''limit'' \<mapsto> [''25''], ''expand'' \<mapsto> [''body.storage,version,space'']]
       \<noteq> [''expand'' \<mapsto> [''body.storage,version,space'']]"
proof
  show "callQuery (hd (callsMade (snd (handleUpdateContent (testClient ok200 currentPage)
       (ArgumentsMap [''contentId'' \<mapsto> AString ''123'']) startNet))))
     = [''limit'' \<mapsto> [''25''], ''expand'' \<mapsto> [''body.storage,version,space'']]"
    by (simp add: handleUpdateContent_def eval_defs)
  show "[''limit'' \<mapsto> [''25''], ''expand'' \<mapsto> [''body.storage,version,space'']]
       \<noteq> [''expand'' \<mapsto> [''body.storage,version,space'']]"
  proof
    assume "[''limit'' \<mapsto> [''25''], ''expand'' \<mapsto> [''body.storage,version,space'']]
       = [''expand'' \<mapsto> [''body.storage,version,space'']]"
    then have "[''limit'' \<mapsto> [''25''], ''expand'' \<mapsto> [''body.storage,version,space'']] ''limit''
       = [''expand'' \<mapsto> [''body.storage,version,space'']] ''limit''"
      by (rule arg_cong)
    then show False by simp
  qed
qed

text \<open>
  C7: in an update-content call that reaches its PUT, the body submitted is
  \<open>updatePayload\<close>; when the \<open>title\<close> argument is absent its title is the title of the
  fetched item, and when the \<open>content\<close> argument is absent its body is the body of the
  fetched item, a missing body included.
\<close>

theorem update_keeps_current:
  assumes "getArguments req = Inr args"
    and "asString (args ''contentId'') = Some contentID"
    and "contentID \<noteq> []"
    and "\<not> strings_Contains contentID ''/''"
    and "\<not> strings_Contains contentID ''..''"
    and "getJSON client (''/content/'' @ contentID)
           ((newQueryWithCommonArgs args)(''expand'' \<mapsto> [''body.storage,version,space''])) s
         = (Inr currentData, s1)"
    and "newVersion args currentData = Inr newVer"
  shows "callsMade (snd (handleUpdateContent client req s)) =
           callsMade s1 @ [\<lparr>callMethod = ''PUT'', callPath = ''/content/'' @ contentID,
              callQuery = Map.empty,
              callBody = Some (updatePayload args contentID currentData newVer)\<rparr>]
       \<and> (args ''title'' = None \<longrightarrow>
            Title (updatePayload args contentID currentData newVer) = Title currentData)
       \<and> (args ''content'' = None \<longrightarrow>
            Body (updatePayload args contentID currentData newVer) = Body currentData)"
  using handleUpdateContent_put [OF assms]
  by (simp add: updatePayload_Title updatePayload_Body stringOrEmpty_def asString_def)

theorem update_keeps_current_witness:
  "callsMade (snd (handleUpdateContent (testClient ok200 currentPage)
       (ArgumentsMap [''contentId'' \<mapsto> AString ''123'']) startNet)) =
     [\<lparr>callMethod = ''GET'', callPath = ''/content/123'',
       callQuery = [''limit'' \<mapsto> [''25''], ''expand'' \<mapsto> [''body.storage,version,space'']],
       callBody = None\<rparr>,
      \<lparr>callMethod = ''PUT'', callPath = ''/content/123'', callQuery = Map.empty,
       callBody = Some (updatePayload [''contentId'' \<mapsto> AString ''123''] ''123'' currentPage 2)\<rparr>]
   \<and> Title (updatePayload [''contentId'' \<mapsto> AString ''123''] ''123'' currentPage 2)
       = ''Current Title''
   \<and> Body (updatePayload [''contentId'' \<mapsto> AString ''123''] ''123'' currentPage 2)
       = Some \<lparr>Storage = Some \<lparr>Value = ''Current Content'', Representation = ''storage''\<rparr>\<rparr>"
proof -
  let ?a = "[''contentId'' \<mapsto> AString ''123'']"
  have nv: "newVersion ?a currentPage = Inr 2"
    by (simp add: eval_defs)
  from update_keeps_current [where req = "ArgumentsMap ?a" and args = ?a
      and contentID = "''123''" and client = "testClient ok200 currentPage" and s = startNet,
      OF _ _ _ _ _ testClient_fetch nv]
  show ?thesis
    by (simp add: getArguments_def asString_def asFloat64_def newQueryWithCommonArgs_def
        Values_Set_def defaultLimit_def Sprintf_d_def decimal.simps callsMade_def currentPage_def)
qed

lemma handleUpdateContent_cong:
  assumes "asString (a ''contentId'') = asString (b ''contentId'')"
    and "newQueryWithCommonArgs a = newQueryWithCommonArgs b"
    and "newVersion a = newVersion b"
    and "updatePayload a = updatePayload b"
  shows "handleUpdateContent client (ArgumentsMap a) s
           = handleUpdateContent client (ArgumentsMap b) s"
  unfolding handleUpdateContent_def getArguments_def Arguments.case sum.case assms
  by (rule refl)

lemma update_args_irrelevant:
  assumes "stringOrEmpty x = stringOrEmpty y"
    and "k = ''title'' \<or> k = ''content''"
  shows "handleUpdateContent client (ArgumentsMap (args(k := x))) s
           = handleUpdateContent client (ArgumentsMap (args(k := y))) s"
proof (rule handleUpdateContent_cong)
  show "asString ((args(k := x)) ''contentId'') = asString ((args(k := y)) ''contentId'')"
    using assms(2) by auto
  show "newQueryWithCommonArgs (args(k := x)) = newQueryWithCommonArgs (args(k := y))"
    using assms(2) by (auto simp: newQueryWithCommonArgs_def)
  show "newVersion (args(k := x)) = newVersion (args(k := y))"
    using assms(2) by (auto simp: newVersion_def fun_eq_iff)
  show "updatePayload (args(k := x)) = updatePayload (args(k := y))"
    using assms by (auto simp: updatePayload_def fun_eq_iff)
qed

text \<open>
  C10, as the code has it: update-content with \<open>title\<close> given as the empty string
  returns the same result and leaves the same state as the call without \<open>title\<close>, and
  likewise for \<open>content\<close>. In a call that reaches its PUT, the body submitted has the
  fetched title when \<open>title\<close> is absent or empty, and the fetched body when \<open>content\<close>
  is absent or empty. So the title submitted is empty only when the fetched title is,
  and a body other than the fetched one is submitted only as a storage body with a
  non-empty value.
\<close>

theorem update_empty_like_absent:
  assumes "getArguments req = Inr args"
    and "asString (args ''contentId'') = Some contentID"
    and "contentID \<noteq> []"
    and "\<not> strings_Contains contentID ''/''"
    and "\<not> strings_Contains contentID ''..''"
    and "getJSON client (''/content/'' @ contentID)
           ((newQueryWithCommonArgs args)(''expand'' \<mapsto> [''body.storage,version,space''])) s
         = (Inr currentData, s1)"
    and "newVersion args currentData = Inr newVer"
  shows "handleUpdateContent client (ArgumentsMap (args(''title'' \<mapsto> AString []))) s
           = handleUpdateContent client (ArgumentsMap (args(''title'' := None))) s
       \<and> handleUpdateContent client (ArgumentsMap (args(''content'' \<mapsto> AString []))) s
           = handleUpdateContent client (ArgumentsMap (args(''content'' := None))) s
       \<and> (\<exists>payload.
             callsMade (snd (handleUpdateContent client req s)) =
               callsMade s1 @ [\<lparr>callMethod = ''PUT'', callPath = ''/content/'' @ contentID,
                                callQuery = Map.empty, callBody = Some payload\<rparr>]
             \<and> (args ''title'' = None \<or> args ''title'' = Some (AString []) \<longrightarrow>
                  Title payload = Title currentData)
             \<and> (args ''content'' = None \<or> args ''content'' = Some (AString []) \<longrightarrow>
                  Body payload = Body currentData)
             \<and> (Title payload = [] \<longrightarrow> Title currentData = [])
             \<and> (Body payload \<noteq> Body currentData \<longrightarrow>
                  (\<exists>v. v \<noteq> [] \<and> Body payload
                         = Some \<lparr>Storage = Some \<lparr>Value = v, Representation = ''storage''\<rparr>\<rparr>)))"
proof -
  have e: "stringOrEmpty (Some (AString [])) = stringOrEmpty None"
    by (simp add: stringOrEmpty_def asString_def)
  have t: "handleUpdateContent client (ArgumentsMap (args(''title'' \<mapsto> AString []))) s
     = handleUpdateContent client (ArgumentsMap (args(''title'' := None))) s"
    by (rule update_args_irrelevant [OF e]) simp
  have c: "handleUpdateContent client (ArgumentsMap (args(''content'' \<mapsto> AString []))) s
     = handleUpdateContent client (ArgumentsMap (args(''content'' := None))) s"
    by (rule update_args_irrelevant [OF e]) simp
  let ?payload = "updatePayload args contentID currentData newVer"
  have p: "callsMade (snd (handleUpdateContent client req s)) =
               callsMade s1 @ [\<lparr>callMethod = ''PUT'', callPath = ''/content/'' @ contentID,
                                callQuery = Map.empty, callBody = Some ?payload\<rparr>]"
    by (rule handleUpdateContent_put [OF assms])
  have f: "(args ''title'' = None \<or> args ''title'' = Some (AString []) \<longrightarrow>
                  Title ?payload = Title currentData)
             \<and> (args ''content'' = None \<or> args ''content'' = Some (AString []) \<longrightarrow>
                  Body ?payload = Body currentData)
             \<and> (Title ?payload = [] \<longrightarrow> Title currentData = [])
             \<and> (Body ?payload \<noteq> Body currentData \<longrightarrow>
                  (\<exists>v. v \<noteq> [] \<and> Body ?payload
                         = Some \<lparr>Storage = Some \<lparr>Value = v, Representation = ''storage''\<rparr>\<rparr>))"
    by (auto simp: updatePayload_Title updatePayload_Body stringOrEmpty_def asString_def)
  from t c p f show ?thesis by blast
qed

theorem update_empty_like_absent_witness:
  "map (\<lambda>c. (callMethod c, map_option Title (callBody c), map_option Body (callBody c)))
     (callsMade (snd (handleUpdateContent (testClient ok200 currentPage)
        (ArgumentsMap [''contentId'' \<mapsto> AString ''123'', ''title'' \<mapsto> AString [],
                       ''content'' \<mapsto> AString []]) startNet)))
     = [(''GET'', None, None),
        (''PUT'', Some ''Current Title'',
         Some (Some \<lparr>Storage = Some \<lparr>Value = ''Current Content'',
                                        Representation = ''storage''\<rparr>\<rparr>))]
   \<and> handleUpdateContent (testClient ok200 currentPage)
        (ArgumentsMap [''contentId'' \<mapsto> AString ''123'', ''title'' \<mapsto> AString []]) startNet
       = handleUpdateContent (testClient ok200 currentPage)
        (ArgumentsMap [''contentId'' \<mapsto> AString ''123'']) startNet"
proof -
  let ?a = "[''contentId'' \<mapsto> AString ''123'', ''title'' \<mapsto> AString [],
             ''content'' \<mapsto> AString []]"
  let ?b = "[''contentId'' \<mapsto> AString ''123'']"
  have nva: "newVersion ?a currentPage = Inr 2" and nvb: "newVersion ?b currentPage = Inr 2"
    by (simp_all add: eval_defs)
  have m: "?b(''title'' := None) = ?b"
    by (rule ext) simp
  note wa = update_empty_like_absent [where req = "ArgumentsMap ?a" and args = ?a
      and contentID = "''123''" and client = "testClient ok200 currentPage" and s = startNet,
      OF _ _ _ _ _ testClient_fetch nva]
  note wb = update_empty_like_absent [where req = "ArgumentsMap ?b" and args = ?b
      and contentID = "''123''" and client = "testClient ok200 currentPage" and s = startNet,
      OF _ _ _ _ _ testClient_fetch nvb]
  have w1: "map (\<lambda>c. (callMethod c, map_option Title (callBody c), map_option Body (callBody c)))
     (callsMade (snd (handleUpdateContent (testClient ok200 currentPage)
        (ArgumentsMap ?a) startNet)))
     = [(''GET'', None, None),
        (''PUT'', Some ''Current Title'',
         Some (Some \<lparr>Storage = Some \<lparr>Value = ''Current Content'',
                                        Representation = ''storage''\<rparr>\<rparr>))]"
    using wa
    by (auto simp: getArguments_def asString_def callsMade_def currentPage_def)
  have w2: "handleUpdateContent (testClient ok200 currentPage)
        (ArgumentsMap [''contentId'' \<mapsto> AString ''123'', ''title'' \<mapsto> AString []]) startNet
       = handleUpdateContent (testClient ok200 currentPage) (ArgumentsMap ?b) startNet"
    using wb unfolding m
    by (simp add: getArguments_def asString_def)
  from w1 w2 show ?thesis by blast
qed

text \<open>
  C10 as stated ends with: no update can set an empty title or an empty body. The
  fall-back submits what was fetched: for a fetched item whose title and storage value
  are empty, the PUT carries the empty title and the empty body.
\<close>

theorem update_empty_like_absent_counterexample:
  "map (\<lambda>c. (callMethod c, map_option Title (callBody c), map_option Body (callBody c)))
     (callsMade (snd (handleUpdateContent
        (testClient ok200
           (currentPage\<lparr>Title := [],
                         Body := Some \<lparr>Storage = Some \<lparr>Value = [],
                                                         Representation = ''storage''\<rparr>\<rparr>\<rparr>))
        (ArgumentsMap [''contentId'' \<mapsto> AString ''123'', ''versionComment'' \<mapsto> AString ''touch''])
        startNet)))
     = [(''GET'', None, None),
        (''PUT'', Some [],
         Some (Some \<lparr>Storage = Some \<lparr>Value = [], Representation = ''storage''\<rparr>\<rparr>))]"
  by (simp add: handleUpdateContent_def eval_defs)

subsection \<open>Responses with an error status\<close>

lemma doRequest_state:
  "executeRequest c m p q b s = (r, s1) \<Longrightarrow> snd (doRequest c m p q b s) = s1"
  by (simp add: doRequest_def split: sum.splits)

lemma getJSON_state:
  "executeRequest c ''GET'' p q None s = (r, s1) \<Longrightarrow> snd (getJSON c p q s) = s1"
  by (simp add: getJSON_def Let_def split: sum.splits)

lemma doRequest_api_error:
  assumes "executeRequest c m p q b s = (Inr resp, s1)"
    and "StatusCode resp \<ge> 400" and "BodyErr resp = None"
  shows "doRequest c m p q b s =
           (Inl (''API error (status '' @ Sprintf_d (StatusCode resp) @ ''): '' @ BodyData resp), s1)"
  using assms by (simp add: doRequest_def io_ReadAll_def)

lemma getJSON_api_error:
  assumes "executeRequest c ''GET'' p q None s = (Inr resp, s1)"
    and "StatusCode resp \<ge> 400"
  shows "getJSON c p q s =
           (Inl (''API error (status '' @ Sprintf_d (StatusCode resp) @ ''): ''
                   @ take 1024 (BodyData resp)), s1)"
  using assms by (simp add: getJSON_def io_ReadAll_Limit_def)

lemma doRequest_answered:
  assumes "doRequest c m p q b s = (x, s')"
    and "exchanges s' = exchanges s @ new"
    and "(call, Inr resp) \<in> set new"
    and "StatusCode resp \<ge> 400" and "BodyErr resp = None"
  shows "x = Inl (''API error (status '' @ Sprintf_d (StatusCode resp) @ ''): '' @ BodyData resp)"
proof -
  obtain r s1 where e: "executeRequest c m p q b s = (r, s1)"
    by (cases "executeRequest c m p q b s") blast
  from doRequest_state [OF e] assms(1) have "s' = s1" by simp
  with executeRequest_exchanges [OF e] assms(2,3) have "r = Inr resp" by auto
  with e doRequest_api_error [of c m p q b s resp s1] assms(1,4,5) show ?thesis by simp
qed

lemma getJSON_answered:
  assumes "getJSON c p q s = (x, s')"
    and "exchanges s' = exchanges s @ new"
    and "(call, Inr resp) \<in> set new"
    and "StatusCode resp \<ge> 400"
  shows "x = Inl (''API error (status '' @ Sprintf_d (StatusCode resp) @ ''): ''
                    @ take 1024 (BodyData resp))"
proof -
  obtain r s1 where e: "executeRequest c ''GET'' p q None s = (r, s1)"
    by (cases "executeRequest c ''GET'' p q None s") blast
  from getJSON_state [OF e] assms(1) have "s' = s1" by simp
  with executeRequest_exchanges [OF e] assms(2,3) have "r = Inr resp" by auto
  with e getJSON_api_error [of c p q s resp s1] assms(1,4) show ?thesis by simp
qed

lemma api_error_contains:
  "strings_Contains (phrase @ ''API error (status '' @ Sprintf_d code @ ''): '' @ rest)
     (Sprintf_d code)"
  using strings_Contains_appendI [of "phrase @ ''API error (status ''" "Sprintf_d code"
      "''): '' @ rest"]
  by simp

lemma respond_answered:
  assumes "respond phrase (doRequest c m p q b s) = (result, s')"
    and "exchanges s' = exchanges s @ new"
    and "(call, Inr resp) \<in> set new"
    and "StatusCode resp \<ge> 400" and "BodyErr resp = None"
  shows "IsError result \<and> strings_Contains (Text result) (Sprintf_d (StatusCode resp))"
proof -
  obtain x s1 where d: "doRequest c m p q b s = (x, s1)"
    by (cases "doRequest c m p q b s") blast
  with assms(1) have "s' = s1"
    by (simp add: respond_def split: sum.splits)
  with d doRequest_answered [of c m p q b s x s' new call resp] assms(2-5)
  have "x = Inl (''API error (status '' @ Sprintf_d (StatusCode resp) @ ''): '' @ BodyData resp)"
    by simp
  with d assms(1) have "result = NewToolResultError
      (phrase @ ''API error (status '' @ Sprintf_d (StatusCode resp) @ ''): '' @ BodyData resp)"
    by (simp add: respond_def)
  then show ?thesis
    using api_error_contains [of phrase "StatusCode resp" "BodyData resp"]
    by (simp add: NewToolResultError_def)
qed

lemma handleGetContent_respond:
  assumes "handleGetContent client req s = (result, s')" and "s' \<noteq> s"
  shows "\<exists>p q. respond ''error getting content: '' (doRequest client ''GET'' p q None s) = (result, s')"
  using assms
  by (auto simp: handleGetContent_def respond_def Let_def split: sum.splits option.splits if_splits)

lemma handleSearchContent_respond:
  assumes "handleSearchContent client req s = (result, s')" and "s' \<noteq> s"
  shows "\<exists>p q. respond ''error searching content: '' (doRequest client ''GET'' p q None s) = (result, s')"
  using assms
  by (auto simp: handleSearchContent_def respond_def Let_def split: sum.splits option.splits if_splits)

lemma handleCreateContent_respond:
  assumes "handleCreateContent client req s = (result, s')" and "s' \<noteq> s"
  shows "\<exists>p q b. respond ''error creating content: '' (doRequest client ''POST'' p q b s) = (result, s')"
  using assms
  by (auto simp: handleCreateContent_def respond_def Let_def split: sum.splits option.splits if_splits)

lemma handleListSpaces_respond:
  assumes "handleListSpaces client req s = (result, s')" and "s' \<noteq> s"
  shows "\<exists>p q. respond ''error listing spaces: '' (doRequest client ''GET'' p q None s) = (result, s')"
  using assms
  by (auto simp: handleListSpaces_def respond_def Let_def split: sum.splits option.splits if_splits)

lemma handleUpdateContent_invalid_state:
  assumes "handleUpdateContent client req s = (result, s')" and "s' \<noteq> s"
  shows "\<exists>args contentID. getArguments req = Inr args
           \<and> asString (args ''contentId'') = Some contentID \<and> contentID \<noteq> []
           \<and> \<not> strings_Contains contentID ''/'' \<and> \<not> strings_Contains contentID ''..''"
  using assms
  by (auto simp: handleUpdateContent_def split: sum.splits option.splits if_splits)

lemma handleUpdateContent_answered:
  assumes run: "handleUpdateContent client req s = (result, s')"
    and new: "exchanges s' = exchanges s @ new"
    and mem: "(call, Inr resp) \<in> set new"
    and status: "StatusCode resp \<ge> 400"
    and body: "BodyErr resp = None \<or> callMethod call = ''GET''"
  shows "IsError result \<and> strings_Contains (Text result) (Sprintf_d (StatusCode resp))"
proof -
  from new mem have "s' \<noteq> s" by auto
  from handleUpdateContent_invalid_state [OF run this]
  obtain args contentID where v: "getArguments req = Inr args"
    "asString (args ''contentId'') = Some contentID" "contentID \<noteq> []"
    "\<not> strings_Contains contentID ''/''" "\<not> strings_Contains contentID ''..''"
    by blast
  let ?p = "''/content/'' @ contentID"
  let ?q = "(newQueryWithCommonArgs args)(''expand'' \<mapsto> [''body.storage,version,space''])"
  let ?get = "\<lparr>callMethod = ''GET'', callPath = ?p, callQuery = ?q, callBody = None\<rparr>"
  note unfold = handleUpdateContent_valid [OF v, of client s]
  obtain r1 s1 where e1: "executeRequest client ''GET'' ?p ?q None s = (r1, s1)"
    by (cases "executeRequest client ''GET'' ?p ?q None s") blast
  obtain x where g: "getJSON client ?p ?q s = (x, s1)"
    using getJSON_state [OF e1] by (cases "getJSON client ?p ?q s") auto
  have x1: "exchanges s1 = exchanges s @ [(?get, r1)]"
    using executeRequest_exchanges [OF e1] .
  have first: "x = Inl (''API error (status '' @ Sprintf_d (StatusCode resp) @ ''): ''
                    @ take 1024 (BodyData resp))" if "r1 = Inr resp"
    using getJSON_answered [OF g x1, of ?get resp] that status by simp
  show ?thesis
  proof (cases x)
    case (Inl err)
    with run unfold g have res: "result = NewToolResultError
        (''failed to retrieve current content: '' @ err)" and "s' = s1"
      by simp_all
    with new x1 mem have "r1 = Inr resp" by auto
    from first [OF this] Inl res show ?thesis
      using api_error_contains [of "''failed to retrieve current content: ''" "StatusCode resp"
          "take 1024 (BodyData resp)"]
      by (simp add: NewToolResultError_def)
  next
    case (Inr currentData)
    then have notfirst: "r1 \<noteq> Inr resp" using first by auto
    show ?thesis
    proof (cases "newVersion args currentData")
      case (Inl err)
      with run unfold g Inr have "s' = s1" by simp
      with new x1 mem notfirst show ?thesis by auto
    next
      case nv: (Inr newVer)
      let ?payload = "Some (updatePayload args contentID currentData newVer)"
      from run unfold g Inr nv
      have put: "respond ''error updating content: ''
                   (doRequest client ''PUT'' ?p Map.empty ?payload s1) = (result, s')"
        by (simp add: respond_def)
      obtain r2 s2 where e2: "executeRequest client ''PUT'' ?p Map.empty ?payload s1 = (r2, s2)"
        by (cases "executeRequest client ''PUT'' ?p Map.empty ?payload s1") blast
      from put doRequest_state [OF e2] have "s' = s2"
        by (auto simp: respond_def split: prod.splits sum.splits)
      with executeRequest_exchanges [OF e2] x1 new
      have n: "new = [(?get, r1), (\<lparr>callMethod = ''PUT'', callPath = ?p, callQuery = Map.empty,
                                      callBody = ?payload\<rparr>, r2)]"
        by simp
      with mem notfirst have c: "call = \<lparr>callMethod = ''PUT'', callPath = ?p,
          callQuery = Map.empty, callBody = ?payload\<rparr>" and "r2 = Inr resp"
        by auto
      with body have b: "BodyErr resp = None" by simp
      have x2: "exchanges s' = exchanges s1 @ [(call, Inr resp)]"
        using new n x1 c \<open>r2 = Inr resp\<close> by simp
      from respond_answered [OF put x2 _ status b] show ?thesis by simp
    qed
  qed
qed

text \<open>
  C9, as the code has it. Whenever one of the five operations has made a call that was
  answered with a status of 400 or more and the body of the answer could be read to
  its end, the operation ends with an error result whose text contains the decimal
  status code. For the preliminary GET of update-content, which goes through
  \<open>getJSON\<close>, this holds whether or not the body could be read. \<open>doRequest\<close> puts
  the whole body into the message; \<open>getJSON\<close> puts at most its first 1024 bytes.
\<close>

theorem remote_error_surfaces:
  "(h \<in> set operations \<and> h client req s = (result, s') \<and> exchanges s' = exchanges s @ new
      \<and> (call, Inr resp) \<in> set new \<and> StatusCode resp \<ge> 400 \<and> BodyErr resp = None
    \<longrightarrow> IsError result \<and> strings_Contains (Text result) (Sprintf_d (StatusCode resp)))
   \<and> (handleUpdateContent client req s = (result, s') \<and> exchanges s' = exchanges s @ new
      \<and> (call, Inr resp) \<in> set new \<and> StatusCode resp \<ge> 400 \<and> callMethod call = ''GET''
    \<longrightarrow> IsError result \<and> strings_Contains (Text result) (Sprintf_d (StatusCode resp)))
   \<and> (executeRequest client m p q b s = (Inr resp, s1) \<and> StatusCode resp \<ge> 400
      \<and> BodyErr resp = None
    \<longrightarrow> doRequest client m p q b s =
          (Inl (''API error (status '' @ Sprintf_d (StatusCode resp) @ ''): '' @ BodyData resp),
           s1))
   \<and> (executeRequest client ''GET'' p q None s = (Inr resp, s1) \<and> StatusCode resp \<ge> 400
    \<longrightarrow> getJSON client p q s =
          (Inl (''API error (status '' @ Sprintf_d (StatusCode resp) @ ''): ''
                  @ take 1024 (BodyData resp)), s1)
        \<and> length (take 1024 (BodyData resp)) \<le> 1024)"
proof (intro conjI impI; (elim conjE)?)
  assume h: "h \<in> set operations" and run: "h client req s = (result, s')"
    and new: "exchanges s' = exchanges s @ new" and mem: "(call, Inr resp) \<in> set new"
    and status: "StatusCode resp \<ge> 400" and body: "BodyErr resp = None"
  from new mem have moved: "s' \<noteq> s" by auto
  from h consider "h = handleGetContent" | "h = handleSearchContent" | "h = handleCreateContent"
    | "h = handleUpdateContent" | "h = handleListSpaces"
    by (auto simp: operations_def)
  then have both: "IsError result \<and> strings_Contains (Text result) (Sprintf_d (StatusCode resp))"
  proof cases
    case 1
    with handleGetContent_respond [OF _ moved] run
    obtain p q where "respond ''error getting content: '' (doRequest client ''GET'' p q None s)
        = (result, s')" by blast
    from respond_answered [OF this new mem status body] show ?thesis .
  next
    case 2
    with handleSearchContent_respond [OF _ moved] run
    obtain p q where "respond ''error searching content: '' (doRequest client ''GET'' p q None s)
        = (result, s')" by blast
    from respond_answered [OF this new mem status body] show ?thesis .
  next
    case 3
    with handleCreateContent_respond [OF _ moved] run
    obtain p q b where "respond ''error creating content: '' (doRequest client ''POST'' p q b s)
        = (result, s')" by blast
    from respond_answered [OF this new mem status body] show ?thesis .
  next
    case 4
    with run have "handleUpdateContent client req s = (result, s')" by simp
    from handleUpdateContent_answered [OF this new mem status] body show ?thesis by simp
  next
    case 5
    with handleListSpaces_respond [OF _ moved] run
    obtain p q where "respond ''error listing spaces: '' (doRequest client ''GET'' p q None s)
        = (result, s')" by blast
    from respond_answered [OF this new mem status body] show ?thesis .
  qed
  from both show "IsError result" ..
  from both show "strings_Contains (Text result) (Sprintf_d (StatusCode resp))" ..
next
  assume run: "handleUpdateContent client req s = (result, s')"
    and new: "exchanges s' = exchanges s @ new" and mem: "(call, Inr resp) \<in> set new"
    and status: "StatusCode resp \<ge> 400" and get: "callMethod call = ''GET''"
  from handleUpdateContent_answered [OF run new mem status] get
  have both: "IsError result \<and> strings_Contains (Text result) (Sprintf_d (StatusCode resp))"
    by simp
  from both show "IsError result" ..
  from both show "strings_Contains (Text result) (Sprintf_d (StatusCode resp))" ..
next
  assume "executeRequest client m p q b s = (Inr resp, s1)" "StatusCode resp \<ge> 400"
    "BodyErr resp = None"
  then show "doRequest client m p q b s =
          (Inl (''API error (status '' @ Sprintf_d (StatusCode resp) @ ''): '' @ BodyData resp),
           s1)"
    by (rule doRequest_api_error)
next
  assume "executeRequest client ''GET'' p q None s = (Inr resp, s1)" "StatusCode resp \<ge> 400"
  then show "getJSON client p q s =
          (Inl (''API error (status '' @ Sprintf_d (StatusCode resp) @ ''): ''
                  @ take 1024 (BodyData resp)), s1)"
    by (rule getJSON_api_error)
next
  show "length (take 1024 (BodyData resp)) \<le> 1024" by simp
qed

text \<open>
  C9 as stated speaks of every response with a status of 400 or more. \<open>doRequest\<close>
  reads the body before it looks at the status (lines 139 to 146): a response with
  status 500 whose body breaks off gives the message of the read failure, and the
  status code is not in it.
\<close>

theorem remote_error_surfaces_counterexample:
  "handleGetContent (testClient truncated500 currentPage)
       (ArgumentsMap [''contentId'' \<mapsto> AString ''123'']) startNet
     = (NewToolResultError
          ''error getting content: failed to read response body: unexpected EOF'',
        \<lparr>remote = (), exchanges =
           [(\<lparr>callMethod = ''GET'', callPath = ''/content/123'',
              callQuery = [''limit'' \<mapsto> [''25''], ''expand'' \<mapsto> [''body.storage'']],
              callBody = None\<rparr>,
             Inr \<lparr>StatusCode = 500, BodyData = ''too short'',
                  BodyErr = Some ''unexpected EOF''\<rparr>)]\<rparr>)
   \<and> \<not> strings_Contains
         (Text (NewToolResultError
            ''error getting content: failed to read response body: unexpected EOF''))
         (Sprintf_d 500)"
  by (simp add: handleGetContent_def ensureExpand_def Values_Get_def truncated500_def eval_defs)

theorem remote_error_surfaces_witness:
  "handleGetContent (testClient (error500 ''internal server error'') currentPage)
       (ArgumentsMap [''contentId'' \<mapsto> AString ''123'']) startNet
     = (NewToolResultError
          ''error getting content: API error (status 500): internal server error'',
        \<lparr>remote = (), exchanges =
           [(\<lparr>callMethod = ''GET'', callPath = ''/content/123'',
              callQuery = [''limit'' \<mapsto> [''25''], ''expand'' \<mapsto> [''body.storage'']],
              callBody = None\<rparr>,
             Inr \<lparr>StatusCode = 500, BodyData = ''internal server error'', BodyErr = None\<rparr>)]\<rparr>)
   \<and> strings_Contains
         ''error getting content: API error (status 500): internal server error'' ''500''
   \<and> handleUpdateContent (testClient truncated500 currentPage)
       (ArgumentsMap [''contentId'' \<mapsto> AString ''123'']) startNet
     = (NewToolResultError
          ''failed to retrieve current content: API error (status 500): too short'',
        \<lparr>remote = (), exchanges =
           [(\<lparr>callMethod = ''GET'', callPath = ''/content/123'',
              callQuery = [''limit'' \<mapsto> [''25''],
                           ''expand'' \<mapsto> [''body.storage,version,space'']],
              callBody = None\<rparr>,
             Inr \<lparr>StatusCode = 500, BodyData = ''too short'',
                  BodyErr = Some ''unexpected EOF''\<rparr>)]\<rparr>)
   \<and> strings_Contains
         ''failed to retrieve current content: API error (status 500): too short'' ''500''"
proof -
  let ?req = "ArgumentsMap [''contentId'' \<mapsto> AString ''123'']"
  let ?c1 = "testClient (error500 ''internal server error'') currentPage"
  let ?r1 = "\<lparr>StatusCode = 500, BodyData = ''internal server error'', BodyErr = None\<rparr>"
  let ?g1 = "\<lparr>callMethod = ''GET'', callPath = ''/content/123'',
              callQuery = [''limit'' \<mapsto> [''25''], ''expand'' \<mapsto> [''body.storage'']],
              callBody = None\<rparr>"
  let ?c2 = "testClient truncated500 currentPage"
  let ?r2 = "\<lparr>StatusCode = 500, BodyData = ''too short'', BodyErr = Some ''unexpected EOF''\<rparr>"
  let ?g2 = "\<lparr>callMethod = ''GET'', callPath = ''/content/123'',
              callQuery = [''limit'' \<mapsto> [''25''],
                           ''expand'' \<mapsto> [''body.storage,version,space'']],
              callBody = None\<rparr>"
  have run1: "handleGetContent ?c1 ?req startNet
     = (NewToolResultError
          ''error getting content: API error (status 500): internal server error'',
        \<lparr>remote = (), exchanges = [(?g1, Inr ?r1)]\<rparr>)"
    by (simp add: handleGetContent_def ensureExpand_def Values_Get_def error500_def eval_defs)
  have run2: "handleUpdateContent ?c2 ?req startNet
     = (NewToolResultError
          ''failed to retrieve current content: API error (status 500): too short'',
        \<lparr>remote = (), exchanges = [(?g2, Inr ?r2)]\<rparr>)"
    by (simp add: handleUpdateContent_def truncated500_def eval_defs)
  have code: "Sprintf_d 500 = ''500''"
    by (simp add: Sprintf_d_def decimal.simps)
  from remote_error_surfaces [where h = handleGetContent and client = ?c1 and req = ?req
      and s = startNet and new = "[(?g1, Inr ?r1)]" and call = ?g1 and resp = ?r1
      and s' = "\<lparr>remote = (), exchanges = [(?g1, Inr ?r1)]\<rparr>"
      and result = "NewToolResultError
          ''error getting content: API error (status 500): internal server error''"]
  have w1: "strings_Contains
         ''error getting content: API error (status 500): internal server error'' ''500''"
    using run1 by (simp add: operations_def startNet_def code NewToolResultError_def)
  from remote_error_surfaces [where client = ?c2 and req = ?req
      and s = startNet and new = "[(?g2, Inr ?r2)]" and call = ?g2 and resp = ?r2
      and s' = "\<lparr>remote = (), exchanges = [(?g2, Inr ?r2)]\<rparr>"
      and result = "NewToolResultError
          ''failed to retrieve current content: API error (status 500): too short''"]
  have w2: "strings_Contains
         ''failed to retrieve current content: API error (status 500): too short'' ''500''"
    using run2 by (simp add: startNet_def code NewToolResultError_def)
  from run1 run2 w1 w2 show ?thesis by blast
qed

subsection \<open>The configuration loader\<close>

lemma occurrences_pos_iff: "0 < occurrences s sub \<longleftrightarrow> strings_Contains s sub"
  by (induction s) auto

text \<open>No proper end of \<open>/rest/api\<close> is also a beginning of it, so an occurrence cannot
  start inside a string and run over into an appended \<open>/rest/api\<close>.\<close>

lemma api_root_unbordered:
  assumes "prefix ''/rest/api'' (t @ ''/rest/api'')" and "t \<noteq> []"
  shows "prefix ''/rest/api'' t"
proof -
  from assms(1) consider "prefix ''/rest/api'' t"
    | us where "''/rest/api'' = t @ us" "prefix us ''/rest/api''"
    by (auto simp: prefix_append)
  then show ?thesis
  proof cases
    case 1
    then show ?thesis .
  next
    case 2
    with assms(2) have "us = []"
      by (auto simp: Cons_eq_append_conv)
    with 2 show ?thesis by simp
  qed
qed

lemma occurrences_append_api_root:
  "\<not> strings_Contains p ''/rest/api'' \<Longrightarrow> occurrences (p @ ''/rest/api'') ''/rest/api'' = 1"
proof (induction p)
  case Nil
  show ?case by simp
next
  case (Cons c cs)
  then have np: "\<not> prefix ''/rest/api'' (c # cs)" and nc: "\<not> strings_Contains cs ''/rest/api''"
    by simp_all
  from np api_root_unbordered [of "c # cs"] have "\<not> prefix ''/rest/api'' ((c # cs) @ ''/rest/api'')"
    by blast
  with Cons.IH [OF nc] show ?case by simp
qed

lemma strings_Contains_take:
  "strings_Contains (take n s) sub \<Longrightarrow> strings_Contains s sub"
proof -
  assume "strings_Contains (take n s) sub"
  then have "sublist sub (take n s)" by (simp add: strings_Contains_iff)
  moreover have "sublist (take n s) s"
    using prefix_imp_sublist [OF take_is_prefix] .
  ultimately show ?thesis
    unfolding strings_Contains_iff by (rule sublist_order.order_trans)
qed

lemma strings_TrimSuffix_Contains:
  "strings_Contains (strings_TrimSuffix s suf) sub \<Longrightarrow> strings_Contains s sub"
  by (auto simp: strings_TrimSuffix_def dest: strings_Contains_take split: if_splits)

lemma withAPIRoot_occurrences:
  "occurrences (Path (withAPIRoot u)) ''/rest/api'' = max 1 (occurrences (Path u) ''/rest/api'')"
proof (cases "strings_Contains (Path u) ''/rest/api''")
  case True
  then have "0 < occurrences (Path u) ''/rest/api''" by (simp add: occurrences_pos_iff)
  with True show ?thesis by (simp add: withAPIRoot_def)
next
  case False
  then have "\<not> strings_Contains (strings_TrimSuffix (Path u) ''/'') ''/rest/api''"
    using strings_TrimSuffix_Contains by blast
  from occurrences_append_api_root [OF this] False
  show ?thesis
    using occurrences_pos_iff [of "Path u" "''/rest/api''"]
    by (simp add: withAPIRoot_def)
qed

lemma withAPIRoot_Contains: "strings_Contains (Path (withAPIRoot u)) ''/rest/api''"
  using withAPIRoot_occurrences [of u] occurrences_pos_iff [of "Path (withAPIRoot u)" "''/rest/api''"]
  by (simp add: max_def split: if_splits)

lemma withAPIRoot_Scheme: "Scheme (withAPIRoot u) = Scheme u"
  by (simp add: withAPIRoot_def)

lemma withAPIRoot_idem: "withAPIRoot (withAPIRoot u) = withAPIRoot u"
  using withAPIRoot_Contains [of u] by (simp add: withAPIRoot_def [of "withAPIRoot u"])

lemma withAPIRoot_suffix:
  "strings_HasSuffix (Path u) ''/rest/api'' \<Longrightarrow> withAPIRoot u = u"
proof -
  assume "strings_HasSuffix (Path u) ''/rest/api''"
  then have "sublist ''/rest/api'' (Path u)"
    by (simp add: strings_HasSuffix_def)
  then show ?thesis by (simp add: withAPIRoot_def strings_Contains_iff)
qed

lemma loadConfig_Inr:
  "loadConfig lib getenv = Inr cfg \<longleftrightarrow>
     (\<exists>u0. getenv ''CONFLUENCE_API_TOKEN'' \<noteq> [] \<and> rawURLFromEnv getenv \<noteq> []
        \<and> url_Parse lib (withDefaultScheme (rawURLFromEnv getenv)) = Inr u0
        \<and> strings_HasPrefix (Scheme u0) ''http''
        \<and> cfg = \<lparr>BaseURL = url_String lib (withAPIRoot u0),
                  Token = getenv ''CONFLUENCE_API_TOKEN''\<rparr>)"
  by (auto simp: loadConfig_def loadConfigURL_def Let_def split: sum.splits if_splits)

lemmas config_defs =
  loadConfig_def loadConfigURL_def rawURLFromEnv_def withDefaultScheme_def withAPIRoot_def
  strings_HasPrefix_def strings_HasSuffix_def strings_TrimSuffix_def envOf_def urlTable_def
  plainURL_def opaqueURL_def plainString_def Let_def suffix_to_prefix

text \<open>Written without escaping, a URL that has no opaque part shows its path.\<close>

lemma plainString_Path:
  assumes "Opaque u = []"
  shows "\<exists>a b. plainString u = a @ Path u @ b"
proof -
  obtain a where a: "(let buf = (if Scheme u \<noteq> [] then Scheme u @ '':'' else []);
               buf =
                     (if Scheme u \<noteq> [] \<or> Host u \<noteq> [] \<or> User u \<noteq> None
                      then (if OmitHost u \<and> Host u = [] \<and> User u = None then buf
                            else
                              let buf = (if Host u \<noteq> [] \<or> Path u \<noteq> [] \<or> User u \<noteq> None
                                         then buf @ ''//'' else buf);
                                  buf = (case User u of
                                           None \<Rightarrow> buf
                                         | Some (name, None) \<Rightarrow> buf @ name @ ''@''
                                         | Some (name, Some pw) \<Rightarrow> buf @ name @ '':'' @ pw @ ''@'')
                              in buf @ Host u)
                      else buf);
                   buf = (if Path u \<noteq> [] \<and> hd (Path u) \<noteq> CHR ''/'' \<and> Host u \<noteq> []
                          then buf @ ''/'' else buf);
                   buf = (if buf = [] \<and> CHR '':'' \<in> set (takeWhile (\<lambda>c. c \<noteq> CHR ''/'') (Path u))
                          then buf @ ''./'' else buf)
               in buf) = a"
    by blast
  obtain b where b: "b = (if ForceQuery u \<or> RawQuery u \<noteq> [] then ''?'' @ RawQuery u else [])
      @ (if Fragment u \<noteq> [] then ''#'' @ Fragment u else [])"
    by blast
  have "plainString u = a @ Path u @ b"
    using assms a b by (auto simp: plainString_def Let_def)
  then show ?thesis by blast
qed

lemma plainString_sublist:
  "Opaque u = [] \<Longrightarrow> sublist (Path u) (plainString u)"
  using plainString_Path [of u] by (auto simp: sublist_def)

text \<open>
  C3, as the code has it. When \<open>loadConfig\<close> succeeds, its base URL is the string that
  \<open>String\<close> gives for the parsed URL with the API root appended where the path did
  not contain it. The scheme of that URL begins with \<open>http\<close>. Its field \<open>Path\<close>
  contains the string \<open>/rest/api\<close>, not necessarily as whole segments: as often as
  the parsed path did, and once when the parsed path did not contain it at all. The
  base URL itself contains \<open>/rest/api\<close> when the parsed URL has no opaque part and
  \<open>String\<close> writes it without escaping.
\<close>

theorem loadConfig_baseURL:
  assumes "loadConfig lib getenv = Inr cfg"
  shows "\<exists>u0. url_Parse lib (withDefaultScheme (rawURLFromEnv getenv)) = Inr u0
           \<and> BaseURL cfg = url_String lib (withAPIRoot u0)
           \<and> strings_HasPrefix (Scheme (withAPIRoot u0)) ''http''
           \<and> sublist ''/rest/api'' (Path (withAPIRoot u0))
           \<and> occurrences (Path (withAPIRoot u0)) ''/rest/api''
               = max 1 (occurrences (Path u0) ''/rest/api'')
           \<and> (Opaque u0 = [] \<and> url_String lib (withAPIRoot u0) = plainString (withAPIRoot u0)
                \<longrightarrow> sublist ''/rest/api'' (BaseURL cfg))"
proof -
  from assms obtain u0 where
    p: "url_Parse lib (withDefaultScheme (rawURLFromEnv getenv)) = Inr u0"
    and h: "strings_HasPrefix (Scheme u0) ''http''"
    and c: "cfg = \<lparr>BaseURL = url_String lib (withAPIRoot u0),
                    Token = getenv ''CONFLUENCE_API_TOKEN''\<rparr>"
    unfolding loadConfig_Inr by blast
  have sub: "sublist ''/rest/api'' (Path (withAPIRoot u0))"
    using withAPIRoot_Contains [of u0] by (simp add: strings_Contains_iff)
  have shown: "sublist ''/rest/api'' (BaseURL cfg)"
    if "Opaque u0 = []" and "url_String lib (withAPIRoot u0) = plainString (withAPIRoot u0)"
  proof -
    from that(1) have "Opaque (withAPIRoot u0) = []" by (simp add: withAPIRoot_def)
    then have "sublist (Path (withAPIRoot u0)) (plainString (withAPIRoot u0))"
      by (rule plainString_sublist)
    with sub have "sublist ''/rest/api'' (plainString (withAPIRoot u0))"
      by (rule sublist_order.order_trans)
    with that(2) c show ?thesis by simp
  qed
  from p h c sub shown show ?thesis
    by (auto simp: withAPIRoot_Scheme withAPIRoot_occurrences)
qed

theorem loadConfig_baseURL_witness:
  "loadConfig (urlTable [(''https://example.atlassian.net/wiki/'',
                           plainURL ''https'' ''example.atlassian.net'' ''/wiki/'')])
       (envOf [(''CONFLUENCE_API_TOKEN'', ''test-token''),
               (''CONFLUENCE_HOST'', ''example.atlassian.net/wiki/'')])
     = Inr \<lparr>BaseURL = ''https://example.atlassian.net/wiki/rest/api'', Token = ''test-token''\<rparr>
   \<and> occurrences ''/wiki/rest/api'' ''/rest/api'' = 1
   \<and> sublist ''/rest/api'' ''https://example.atlassian.net/wiki/rest/api''"
proof -
  let ?lib = "urlTable [(''https://example.atlassian.net/wiki/'',
                           plainURL ''https'' ''example.atlassian.net'' ''/wiki/'')]"
  let ?env = "envOf [(''CONFLUENCE_API_TOKEN'', ''test-token''),
               (''CONFLUENCE_HOST'', ''example.atlassian.net/wiki/'')]"
  have run: "loadConfig ?lib ?env
     = Inr \<lparr>BaseURL = ''https://example.atlassian.net/wiki/rest/api'', Token = ''test-token''\<rparr>"
    by (simp add: config_defs)
  from loadConfig_baseURL [OF run]
  have "occurrences ''/wiki/rest/api'' ''/rest/api'' = 1
      \<and> sublist ''/rest/api'' ''https://example.atlassian.net/wiki/rest/api''"
    by (auto simp: config_defs)
  with run show ?thesis by blast
qed

text \<open>
  C3 as stated asks for the scheme \<open>http\<close> or \<open>https\<close> and for exactly one segment
  \<open>/rest/api\<close> in the path of the base URL. Four base URLs that \<open>loadConfig\<close>
  accepts: \<open>https://example.com/rest/api/rest/api\<close> is kept as it is, with two
  occurrences (the test of line 62 looks for one only); \<open>httpx://example.com\<close> passes
  the test of line 58, which compares a prefix; \<open>http:foo://bar\<close> has the scheme
  \<open>http\<close> and an opaque part, the API root goes into a path that \<open>String\<close> does not
  write, and the base URL is \<open>http:foo://bar\<close>; \<open>https://example.com/rest/apiary\<close> is
  kept as it is, because \<open>/rest/api\<close> occurs in \<open>/rest/apiary\<close>, whose segments are
  \<open>rest\<close> and \<open>apiary\<close>. The library is given at these inputs: it parses them into
  scheme, host and path, or scheme and opaque part, as written.
\<close>

theorem loadConfig_baseURL_counterexample:
  "loadConfig
       (urlTable [(''https://example.com/rest/api/rest/api'',
                   plainURL ''https'' ''example.com'' ''/rest/api/rest/api'')])
       (envOf [(''CONFLUENCE_API_TOKEN'', ''test-token''),
               (''CONFLUENCE_BASE_URL'', ''https://example.com/rest/api/rest/api'')])
     = Inr \<lparr>BaseURL = ''https://example.com/rest/api/rest/api'', Token = ''test-token''\<rparr>
   \<and> occurrences ''/rest/api/rest/api'' ''/rest/api'' = 2
   \<and> loadConfig
       (urlTable [(''httpx://example.com'', plainURL ''httpx'' ''example.com'' [])])
       (envOf [(''CONFLUENCE_API_TOKEN'', ''test-token''),
               (''CONFLUENCE_BASE_URL'', ''httpx://example.com'')])
     = Inr \<lparr>BaseURL = ''httpx://example.com/rest/api'', Token = ''test-token''\<rparr>
   \<and> ''httpx'' \<noteq> ''http'' \<and> ''httpx'' \<noteq> ''https''
   \<and> loadConfig
       (urlTable [(''http:foo://bar'', opaqueURL ''http'' ''foo://bar'')])
       (envOf [(''CONFLUENCE_API_TOKEN'', ''test-token''),
               (''CONFLUENCE_BASE_URL'', ''http:foo://bar'')])
     = Inr \<lparr>BaseURL = ''http:foo://bar'', Token = ''test-token''\<rparr>
   \<and> \<not> strings_Contains ''http:foo://bar'' ''/rest/api''
   \<and> loadConfig
       (urlTable [(''https://example.com/rest/apiary'',
                   plainURL ''https'' ''example.com'' ''/rest/apiary'')])
       (envOf [(''CONFLUENCE_API_TOKEN'', ''test-token''),
               (''CONFLUENCE_BASE_URL'', ''https://example.com/rest/apiary'')])
     = Inr \<lparr>BaseURL = ''https://example.com/rest/apiary'', Token = ''test-token''\<rparr>
   \<and> strings_Split ''/rest/apiary'' (CHR ''/'') = [[], ''rest'', ''apiary'']"
  by (simp add: config_defs)

text \<open>
  C6: \<open>loadConfig\<close> depends on the environment through the four variables it reads
  only, so two runs on environments that agree on them give the same descriptor, or
  the same error. When the parsed path already ends with \<open>/rest/api\<close>, the URL is left
  as it is and the descriptor holds its string: nothing is appended. Appending the API
  root is idempotent.
\<close>

theorem loadConfig_deterministic_idempotent:
  "((\<forall>name \<in> {''CONFLUENCE_API_TOKEN'', ''CONFLUENCE_BASE_URL'', ''CONFLUENCE_API_BASE_PATH'',
                 ''CONFLUENCE_HOST''}. getenv1 name = getenv2 name)
      \<longrightarrow> loadConfig lib getenv1 = loadConfig lib getenv2)
   \<and> (getenv ''CONFLUENCE_API_TOKEN'' \<noteq> [] \<and> rawURLFromEnv getenv \<noteq> []
        \<and> url_Parse lib (withDefaultScheme (rawURLFromEnv getenv)) = Inr u
        \<and> strings_HasPrefix (Scheme u) ''http''
        \<and> strings_HasSuffix (Path u) ''/rest/api''
      \<longrightarrow> loadConfig lib getenv
            = Inr \<lparr>BaseURL = url_String lib u, Token = getenv ''CONFLUENCE_API_TOKEN''\<rparr>)
   \<and> (strings_HasSuffix (Path u) ''/rest/api'' \<longrightarrow> withAPIRoot u = u)
   \<and> withAPIRoot (withAPIRoot u) = withAPIRoot u"
proof (intro conjI impI)
  assume "\<forall>name \<in> {''CONFLUENCE_API_TOKEN'', ''CONFLUENCE_BASE_URL'', ''CONFLUENCE_API_BASE_PATH'',
                 ''CONFLUENCE_HOST''}. getenv1 name = getenv2 name"
  then have t: "getenv1 ''CONFLUENCE_API_TOKEN'' = getenv2 ''CONFLUENCE_API_TOKEN''"
    and r: "rawURLFromEnv getenv1 = rawURLFromEnv getenv2"
    by (simp_all add: rawURLFromEnv_def Let_def)
  show "loadConfig lib getenv1 = loadConfig lib getenv2"
    unfolding loadConfig_def loadConfigURL_def t r by (rule refl)
next
  assume a: "getenv ''CONFLUENCE_API_TOKEN'' \<noteq> [] \<and> rawURLFromEnv getenv \<noteq> []
        \<and> url_Parse lib (withDefaultScheme (rawURLFromEnv getenv)) = Inr u
        \<and> strings_HasPrefix (Scheme u) ''http''
        \<and> strings_HasSuffix (Path u) ''/rest/api''"
  then have "withAPIRoot u = u" by (simp add: withAPIRoot_suffix)
  with a show "loadConfig lib getenv
            = Inr \<lparr>BaseURL = url_String lib u, Token = getenv ''CONFLUENCE_API_TOKEN''\<rparr>"
    by (simp add: loadConfig_def loadConfigURL_def)
next
  assume "strings_HasSuffix (Path u) ''/rest/api''"
  then show "withAPIRoot u = u" by (rule withAPIRoot_suffix)
next
  show "withAPIRoot (withAPIRoot u) = withAPIRoot u" by (rule withAPIRoot_idem)
qed

theorem loadConfig_deterministic_idempotent_witness:
  "loadConfig (urlTable [(''https://example.atlassian.net/rest/api'',
                           plainURL ''https'' ''example.atlassian.net'' ''/rest/api'')])
       (envOf [(''CONFLUENCE_API_TOKEN'', ''test-token''),
               (''CONFLUENCE_BASE_URL'', ''https://example.atlassian.net/rest/api'')])
     = Inr \<lparr>BaseURL = ''https://example.atlassian.net/rest/api'', Token = ''test-token''\<rparr>
   \<and> loadConfig (urlTable [(''https://example.atlassian.net/rest/api'',
                           plainURL ''https'' ''example.atlassian.net'' ''/rest/api'')])
       (envOf [(''CONFLUENCE_API_TOKEN'', ''test-token''),
               (''CONFLUENCE_BASE_URL'', ''https://example.atlassian.net/rest/api''),
               (''HOME'', ''/root'')])
     = loadConfig (urlTable [(''https://example.atlassian.net/rest/api'',
                           plainURL ''https'' ''example.atlassian.net'' ''/rest/api'')])
       (envOf [(''CONFLUENCE_API_TOKEN'', ''test-token''),
               (''CONFLUENCE_BASE_URL'', ''https://example.atlassian.net/rest/api'')])"
proof -
  let ?u = "plainURL ''https'' ''example.atlassian.net'' ''/rest/api''"
  let ?lib = "urlTable [(''https://example.atlassian.net/rest/api'', ?u)]"
  let ?env = "envOf [(''CONFLUENCE_API_TOKEN'', ''test-token''),
               (''CONFLUENCE_BASE_URL'', ''https://example.atlassian.net/rest/api'')]"
  let ?env2 = "envOf [(''CONFLUENCE_API_TOKEN'', ''test-token''),
               (''CONFLUENCE_BASE_URL'', ''https://example.atlassian.net/rest/api''),
               (''HOME'', ''/root'')]"
  note t = loadConfig_deterministic_idempotent [where lib = ?lib and getenv = ?env and u = ?u
      and ?getenv1.0 = ?env2 and ?getenv2.0 = ?env]
  have same: "\<forall>name \<in> {''CONFLUENCE_API_TOKEN'', ''CONFLUENCE_BASE_URL'',
      ''CONFLUENCE_API_BASE_PATH'', ''CONFLUENCE_HOST''}. ?env2 name = ?env name"
    by (simp add: envOf_def)
  have pre: "?env ''CONFLUENCE_API_TOKEN'' \<noteq> [] \<and> rawURLFromEnv ?env \<noteq> []
        \<and> url_Parse ?lib (withDefaultScheme (rawURLFromEnv ?env)) = Inr ?u
        \<and> strings_HasPrefix (Scheme ?u) ''http''
        \<and> strings_HasSuffix (Path ?u) ''/rest/api''"
    by (simp add: config_defs)
  from t same have w1: "loadConfig ?lib ?env2 = loadConfig ?lib ?env" by blast
  from t pre have "loadConfig ?lib ?env
     = Inr \<lparr>BaseURL = url_String ?lib ?u, Token = ?env ''CONFLUENCE_API_TOKEN''\<rparr>" by blast
  then have w2: "loadConfig ?lib ?env
     = Inr \<lparr>BaseURL = ''https://example.atlassian.net/rest/api'', Token = ''test-token''\<rparr>"
    by (simp add: envOf_def urlTable_def plainURL_def plainString_def)
  from w1 w2 show ?thesis by blast
qed

end
